theory Spec2Isabelle
  imports Complex_Main "HOL-Library.Word"
begin

section \<open>Motion extraction: the GPU engine and the CPU loop\<close>

text \<open>
  The repository holds two implementations of one pipeline: \<open>MotionEngine\<close> with its
  GLSL shaders (the GPU path) and the \<open>draw\<close> callback with \<open>applyMorphology\<close>
  (the CPU path). Shader floats and \<open>Float32Array\<close> cells are modelled as \<open>real\<close>;
  the bytes of a \<open>Uint8ClampedArray\<close> are \<open>8 word\<close>.
\<close>

subsection \<open>Configuration\<close>

datatype detectionMode = Color | Luminance

datatype morphology = MorphNone | MorphOpen | MorphClose

datatype effect = Classic | ColorBurn | ElectricTrails | Heatmap | Chromatic

record MotionControls =
  detectionMode :: detectionMode
  detectionThreshold :: real
  processingResolution :: real
  noiseReduction :: real
  adaptationRate :: real
  morphology :: morphology
  effect :: effect
  invert :: bool
  persistence :: real

subsection \<open>GLSL values and built-ins\<close>

datatype vec4 = Vec4 (r_of: real) (g_of: real) (b_of: real) (a_of: real)

definition mix :: "real \<Rightarrow> real \<Rightarrow> real \<Rightarrow> real" where
  "mix x y a = x * (1 - a) + y * a"

definition mix4 :: "vec4 \<Rightarrow> vec4 \<Rightarrow> real \<Rightarrow> vec4" where
  "mix4 p q a = Vec4 (mix (r_of p) (r_of q) a) (mix (g_of p) (g_of q) a)
                     (mix (b_of p) (b_of q) a) (mix (a_of p) (a_of q) a)"

definition dot3 :: "vec4 \<Rightarrow> real \<Rightarrow> real \<Rightarrow> real \<Rightarrow> real" where
  \<comment> \<open>\<open>dot(p.rgb, vec3(wr, wg, wb))\<close>\<close>
  "dot3 p wr wg wb = r_of p * wr + g_of p * wg + b_of p * wb"

definition length3 :: "real \<Rightarrow> real \<Rightarrow> real \<Rightarrow> real" where
  \<comment> \<open>\<open>length(vec3(dx, dy, dz))\<close>\<close>
  "length3 dx dy dz = sqrt (dx * dx + dy * dy + dz * dz)"

definition clamp :: "real \<Rightarrow> real \<Rightarrow> real \<Rightarrow> real" where
  "clamp x lo hi = min (max x lo) hi"

definition smoothstep :: "real \<Rightarrow> real \<Rightarrow> real \<Rightarrow> real" where
  \<comment> \<open>GLSL leaves the result undefined when \<open>e0 \<ge> e1\<close>; the division below is then
      HOL's, so facts about \<open>smoothstep\<close> are stated for \<open>e0 < e1\<close>.\<close>
  "smoothstep e0 e1 x = (let t = clamp ((x - e0) / (e1 - e0)) 0 1 in t * t * (3 - 2 * t))"

subsection \<open>The background-subtraction fragment shader\<close>

definition curLum :: "vec4 \<Rightarrow> real" where
  "curLum current = dot3 current 0.299 0.587 0.114"

definition bgsub_dist :: "bool \<Rightarrow> vec4 \<Rightarrow> vec4 \<Rightarrow> real" where
  "bgsub_dist u_isColorMode current mean =
     (if u_isColorMode
      then length3 (r_of current - r_of mean) (g_of current - g_of mean) (b_of current - b_of mean)
      else \<bar>curLum current - r_of mean\<bar>)"

definition bgsub_var :: "real \<Rightarrow> vec4 \<Rightarrow> real" where
  \<comment> \<open>both branches of the shader compute the same \<open>var\<close>\<close>
  "bgsub_var u_minVariance variance = max (r_of variance) u_minVariance"

definition bgsub_edge :: "real \<Rightarrow> real \<Rightarrow> vec4 \<Rightarrow> real" where
  "bgsub_edge u_threshold u_minVariance variance =
     u_threshold * sqrt (bgsub_var u_minVariance variance)"

definition bgsub_soft :: "real \<Rightarrow> bool \<Rightarrow> real \<Rightarrow> vec4 \<Rightarrow> vec4 \<Rightarrow> vec4 \<Rightarrow> real" where
  "bgsub_soft u_threshold u_isColorMode u_minVariance current mean variance =
     (let edge = bgsub_edge u_threshold u_minVariance variance
      in smoothstep (edge * 0.6) (edge * 1.4) (bgsub_dist u_isColorMode current mean))"

definition backgroundSubtraction ::
  "real \<Rightarrow> real \<Rightarrow> bool \<Rightarrow> real \<Rightarrow> vec4 \<Rightarrow> vec4 \<Rightarrow> vec4 \<Rightarrow> vec4 \<times> vec4 \<times> vec4" where
  \<comment> \<open>\<open>main\<close> of \<open>backgroundSubtractionFragmentSource\<close>: the three outputs
      \<open>(o_newMean, o_newVariance, o_motionMask)\<close> of one fragment\<close>
  "backgroundSubtraction u_adaptationRate u_threshold u_isColorMode u_minVariance
       current mean variance =
     (let soft = bgsub_soft u_threshold u_isColorMode u_minVariance current mean variance;
          bgWeight = 1 - soft;
          alpha = u_adaptationRate * bgWeight;
          (newMean, newVariance) =
            (if u_isColorMode then
               (let newMean = mix4 mean current alpha;
                    lumDiff = dot3 current 0.333 0.333 0.333 - dot3 mean 0.333 0.333 0.333
                in (newMean,
                    Vec4 (mix (r_of variance) (lumDiff * lumDiff) alpha)
                         (g_of variance) (b_of variance) (a_of variance)))
             else
               (let cl = curLum current;
                    newMean = Vec4 (mix (r_of mean) cl alpha) (g_of mean) (b_of mean) (a_of mean);
                    d = cl - r_of newMean
                in (newMean,
                    Vec4 (mix (r_of variance) (d * d) alpha)
                         (g_of variance) (b_of variance) (a_of variance))))
      in (Vec4 (r_of newMean) (g_of newMean) (b_of newMean) 1,
          Vec4 (r_of newVariance) (g_of newVariance) (b_of newVariance) 1,
          Vec4 soft soft soft 1))"

subsection \<open>The CPU path: morphology on the mask bytes\<close>

type_synonym byte = "8 word"

definition getPixel :: "byte list \<Rightarrow> int \<Rightarrow> int \<Rightarrow> nat \<Rightarrow> nat \<Rightarrow> byte" where
  "getPixel data x y width height =
     (if x < 0 \<or> x \<ge> int width \<or> y < 0 \<or> y \<ge> int height then 0
      else data ! (nat (y * int width + x) * 4))"

definition setPixel :: "byte list \<Rightarrow> nat \<Rightarrow> nat \<Rightarrow> nat \<Rightarrow> byte \<Rightarrow> byte list" where
  \<comment> \<open>a typed array ignores a write past its end, as \<open>list_update\<close> does\<close>
  "setPixel data x y width v =
     (let i = (y * width + x) * 4
      in data[i := v, i + 1 := v, i + 2 := v, i + 3 := 255])"

definition erode_min :: "byte list \<Rightarrow> nat \<Rightarrow> nat \<Rightarrow> nat \<Rightarrow> nat \<Rightarrow> byte" where
  \<comment> \<open>the two inner loops of \<open>erode\<close> at one pixel\<close>
  "erode_min input width height x y =
     fold (\<lambda>j m. fold (\<lambda>i m. min m (getPixel input (int x + i) (int y + j) width height))
                       [-1, 0, 1] m)
          [-1, 0, 1] 255"

definition dilate_max :: "byte list \<Rightarrow> nat \<Rightarrow> nat \<Rightarrow> nat \<Rightarrow> nat \<Rightarrow> byte" where
  \<comment> \<open>the two inner loops of \<open>dilate\<close> at one pixel\<close>
  "dilate_max input width height x y =
     fold (\<lambda>j m. fold (\<lambda>i m. max m (getPixel input (int x + i) (int y + j) width height))
                       [-1, 0, 1] m)
          [-1, 0, 1] 0"

definition erode :: "nat \<Rightarrow> nat \<Rightarrow> byte list \<Rightarrow> byte list \<Rightarrow> byte list" where
  "erode width height input output =
     fold (\<lambda>y out. fold (\<lambda>x out. setPixel out x y width (erode_min input width height x y))
                         [0..<width] out)
          [0..<height] output"

definition dilate :: "nat \<Rightarrow> nat \<Rightarrow> byte list \<Rightarrow> byte list \<Rightarrow> byte list" where
  "dilate width height input output =
     fold (\<lambda>y out. fold (\<lambda>x out. setPixel out x y width (dilate_max input width height x y))
                         [0..<width] out)
          [0..<height] output"

definition applyMorphology :: "byte list \<Rightarrow> nat \<Rightarrow> nat \<Rightarrow> morphology \<Rightarrow> byte list" where
  \<comment> \<open>returns the contents of \<open>data\<close> after the call\<close>
  "applyMorphology data width height type =
     (let src = data;
          buffer = replicate (length data) 0
      in case type of
           MorphOpen \<Rightarrow> dilate width height (erode width height src buffer) data
         | MorphClose \<Rightarrow> erode width height (dilate width height src buffer) data
         | MorphNone \<Rightarrow> data)"

subsection \<open>Textures and draw calls\<close>

type_synonym texture = "vec4 list"

definition clampi :: "int \<Rightarrow> int \<Rightarrow> int \<Rightarrow> int" where
  "clampi v lo hi = min (max v lo) hi"

definition texture_at :: "texture \<Rightarrow> nat \<Rightarrow> nat \<Rightarrow> int \<Rightarrow> int \<Rightarrow> vec4" where
  \<comment> \<open>\<open>texture(t, v_texCoord + vec2(i, j) * px)\<close> on a \<open>w \<times> h\<close> texture created with
      \<open>NEAREST\<close> filtering and \<open>CLAMP_TO_EDGE\<close> wrapping, row-major: the fragment sits
      at a texel centre, the offset moves by whole texels, and a coordinate outside the
      texture reads the nearest edge texel.\<close>
  "texture_at t w h x y =
     t ! (nat (clampi y 0 (int h - 1)) * w + nat (clampi x 0 (int w - 1)))"

definition drawQuad :: "nat \<Rightarrow> nat \<Rightarrow> (nat \<Rightarrow> nat \<Rightarrow> 'a) \<Rightarrow> 'a list" where
  \<comment> \<open>the full-screen quad under \<open>gl.viewport(0, 0, w, h)\<close>: one fragment per pixel\<close>
  "drawQuad w h frag = map (\<lambda>k. frag (k mod w) (k div w)) [0..<w * h]"

subsection \<open>The morphology fragment shader\<close>

definition morphologyFragment :: "int \<Rightarrow> texture \<Rightarrow> nat \<Rightarrow> nat \<Rightarrow> nat \<Rightarrow> nat \<Rightarrow> vec4" where
  \<comment> \<open>\<open>u_type\<close>: 0 = erode, otherwise dilate\<close>
  "morphologyFragment u_type u_image w h x y =
     (let val0 = r_of (texture_at u_image w h (int x) (int y));
          val = fold (\<lambda>i val.
                  fold (\<lambda>j val.
                    (let n = r_of (texture_at u_image w h (int x + i) (int y + j))
                     in if u_type = 0 then min val n else max val n))
                  [-1, 0, 1] val)
                [-1, 0, 1] val0
      in Vec4 val val val 1)"

definition morphPass :: "int \<Rightarrow> texture \<Rightarrow> nat \<Rightarrow> nat \<Rightarrow> texture" where
  "morphPass u_type u_image w h = drawQuad w h (morphologyFragment u_type u_image w h)"

subsection \<open>The output fragment shader\<close>

type_synonym effect_rgb =
  "effect \<Rightarrow> texture \<Rightarrow> texture \<Rightarrow> bool \<Rightarrow> nat \<Rightarrow> nat \<Rightarrow> nat \<Rightarrow> nat \<Rightarrow> real \<times> real \<times> real"

definition outputFragment ::
  "effect_rgb \<Rightarrow> effect \<Rightarrow> bool \<Rightarrow> texture \<Rightarrow> texture \<Rightarrow> nat \<Rightarrow> nat \<Rightarrow> nat \<Rightarrow> nat \<Rightarrow> vec4" where
  \<comment> \<open>\<open>main\<close> of \<open>outputFragmentSource\<close>. The per-style colour \<open>result\<close> (palette, glow,
      vignette, channel shift) is the parameter \<open>fx\<close>; the shader's output is
      \<open>vec4(result, mask)\<close> with the mask inverted first when \<open>u_invert\<close> is set.\<close>
  "outputFragment fx u_effect u_invert u_video u_mask w h x y =
     (let m0 = r_of (texture_at u_mask w h (int x) (int y));
          msk = (if u_invert then 1 - m0 else m0);
          (rr, rg, rb) = fx u_effect u_video u_mask u_invert w h x y
      in Vec4 rr rg rb msk)"

subsection \<open>The engine\<close>

record textures =
  tex_video :: texture
  tex_mean :: "texture \<times> texture"
  tex_variance :: "texture \<times> texture"
  tex_mask :: "texture \<times> texture"

record MotionEngine =
  width :: nat
  height :: nat
  textures :: "textures option"
  pingPongIndex :: nat
  isInitialized :: bool
  canvas :: texture
  blendEnabled :: bool

datatype js_error = TypeError

definition pp_get :: "'a \<times> 'a \<Rightarrow> nat \<Rightarrow> 'a" where
  "pp_get p idx = (if idx = 0 then fst p else snd p)"

definition pp_set :: "'a \<times> 'a \<Rightarrow> nat \<Rightarrow> 'a \<Rightarrow> 'a \<times> 'a" where
  "pp_set p idx v = (if idx = 0 then (v, snd p) else (fst p, v))"

definition createTex :: "nat \<Rightarrow> nat \<Rightarrow> texture" where
  \<comment> \<open>\<open>gl.texImage2D(..., w, h, 0, gl.RGBA, gl.FLOAT, null)\<close>: storage allocated with no
      pixel source, which WebGL fills with zeros\<close>
  "createTex w h = replicate (w * h) (Vec4 0 0 0 0)"

definition createTexturesAndFBOs :: "nat \<Rightarrow> nat \<Rightarrow> textures" where
  \<comment> \<open>the video texture gets no storage here: it is uploaded every frame\<close>
  "createTexturesAndFBOs w h =
     \<lparr>tex_video = [],
      tex_mean = (createTex w h, createTex w h),
      tex_variance = (createTex w h, createTex w h),
      tex_mask = (createTex w h, createTex w h)\<rparr>"

definition init :: "nat \<Rightarrow> nat \<Rightarrow> MotionEngine \<Rightarrow> MotionEngine" where
  "init w h s =
     s\<lparr>width := w, height := h, textures := Some (createTexturesAndFBOs w h),
       isInitialized := True\<rparr>"

definition resize :: "nat \<Rightarrow> nat \<Rightarrow> MotionEngine \<Rightarrow> MotionEngine" where
  "resize w h s =
     (if width s \<noteq> w \<or> height s \<noteq> h
      then s\<lparr>width := w, height := h, textures := Some (createTexturesAndFBOs w h)\<rparr>
      else s)"

definition bgSubPass ::
  "MotionControls \<Rightarrow> nat \<Rightarrow> nat \<Rightarrow> texture \<Rightarrow> texture \<Rightarrow> texture \<Rightarrow> (vec4 \<times> vec4 \<times> vec4) list" where
  \<comment> \<open>pass 2 of \<open>render\<close>: the uniforms as \<open>render\<close> sets them, one fragment per pixel\<close>
  "bgSubPass controls w h u_image u_backgroundMean u_backgroundVariance =
     drawQuad w h (\<lambda>x y.
       backgroundSubtraction (adaptationRate controls) (detectionThreshold controls / 10)
         (detectionMode controls = Color) 0.05
         (texture_at u_image w h (int x) (int y))
         (texture_at u_backgroundMean w h (int x) (int y))
         (texture_at u_backgroundVariance w h (int x) (int y)))"

definition gl_clear :: "vec4 \<Rightarrow> texture \<Rightarrow> texture" where
  \<comment> \<open>\<open>gl.clear(gl.COLOR_BUFFER_BIT)\<close> writes the clear colour to every pixel; blending
      does not apply to a clear\<close>
  "gl_clear c buf = map (\<lambda>_. c) buf"

definition blend_src_alpha :: "vec4 \<Rightarrow> vec4 \<Rightarrow> vec4" where
  \<comment> \<open>\<open>gl.blendFunc(gl.SRC_ALPHA, gl.ONE_MINUS_SRC_ALPHA)\<close>, all four channels\<close>
  "blend_src_alpha src dst =
     Vec4 (r_of src * a_of src + r_of dst * (1 - a_of src))
          (g_of src * a_of src + g_of dst * (1 - a_of src))
          (b_of src * a_of src + b_of dst * (1 - a_of src))
          (a_of src * a_of src + a_of dst * (1 - a_of src))"

definition drawToCanvas :: "bool \<Rightarrow> nat \<Rightarrow> nat \<Rightarrow> (nat \<Rightarrow> nat \<Rightarrow> vec4) \<Rightarrow> texture \<Rightarrow> texture" where
  \<comment> \<open>the quad drawn to the default framebuffer, whose size is the viewport's\<close>
  "drawToCanvas blend w h frag buf =
     map (\<lambda>k. (let src = frag (k mod w) (k div w)
                in if blend then blend_src_alpha src (buf ! k) else src))
         [0..<length buf]"

definition render_clear :: "MotionControls \<Rightarrow> texture \<Rightarrow> bool \<times> texture" where
  \<comment> \<open>the \<open>isPersistence\<close> branch of \<open>render\<close>: the blend state it leaves and the canvas
      after \<open>gl.clear\<close>\<close>
  "render_clear controls buf =
     (let isPersistence = (effect controls = ElectricTrails \<or> effect controls = Heatmap)
      in if isPersistence
         then (let fade = 1 - persistence controls in (True, gl_clear (Vec4 0 0 0 fade) buf))
         else (False, gl_clear (Vec4 0 0 0 1) buf))"

definition render ::
  "effect_rgb \<Rightarrow> texture \<Rightarrow> MotionControls \<Rightarrow> MotionEngine \<Rightarrow> js_error + MotionEngine" where
  \<comment> \<open>\<open>video\<close> is the frame as the video texture holds it after the upload, at the
      engine's resolution. \<open>this.textures!\<close> on \<open>null\<close> is a \<open>TypeError\<close>.\<close>
  "render fx video controls s =
     (if \<not> isInitialized s then Inr s
      else case textures s of
        None \<Rightarrow> Inl TypeError
      | Some t0 \<Rightarrow>
          (let idx = pingPongIndex s;
               nextIdx = (idx + 1) mod 2;
               w = width s;
               h = height s;
               t1 = t0\<lparr>tex_video := video\<rparr>;
               out = bgSubPass controls w h (tex_video t1)
                       (pp_get (tex_mean t1) idx) (pp_get (tex_variance t1) idx);
               t2 = t1\<lparr>tex_mean := pp_set (tex_mean t1) nextIdx (map fst out),
                       tex_variance := pp_set (tex_variance t1) nextIdx (map (fst \<circ> snd) out),
                       tex_mask := pp_set (tex_mask t1) nextIdx (map (snd \<circ> snd) out)\<rparr>;
               currentMaskTex = pp_get (tex_mask t2) nextIdx;
               t3 = (case morphology controls of
                       MorphNone \<Rightarrow> t2
                     | MorphOpen \<Rightarrow>
                         (let ta = t2\<lparr>tex_mask := pp_set (tex_mask t2) idx
                                         (morphPass 0 currentMaskTex w h)\<rparr>
                          in ta\<lparr>tex_mask := pp_set (tex_mask ta) nextIdx
                                   (morphPass 1 (pp_get (tex_mask ta) idx) w h)\<rparr>)
                     | MorphClose \<Rightarrow>
                         (let ta = t2\<lparr>tex_mask := pp_set (tex_mask t2) idx
                                         (morphPass 1 currentMaskTex w h)\<rparr>
                          in ta\<lparr>tex_mask := pp_set (tex_mask ta) nextIdx
                                   (morphPass 0 (pp_get (tex_mask ta) idx) w h)\<rparr>));
               (blend, cleared) = render_clear controls (canvas s);
               drawn = drawToCanvas blend w h
                         (outputFragment fx (effect controls) (invert controls)
                            (tex_video t3) (pp_get (tex_mask t3) nextIdx) w h)
                         cleared
           in Inr (s\<lparr>textures := Some t3, canvas := drawn, blendEnabled := blend,
                     pingPongIndex := nextIdx\<rparr>)))"

subsection \<open>The CPU path: the 2D canvas\<close>

text \<open>
  The backing store of a 2D canvas holds 8-bit channels. How the browser rounds when
  it composites a colour onto that store is not the program's, so the source-over
  operator is a parameter of the model: a compositor takes the source colour (straight
  RGBA, channels in \<open>[0, 1]\<close>) and the stored pixel and returns the new stored pixel.
\<close>

type_synonym rgba8 = "byte \<times> byte \<times> byte \<times> byte"

type_synonym compositor = "vec4 \<Rightarrow> rgba8 \<Rightarrow> rgba8"

definition num :: "byte \<Rightarrow> real" where
  "num v = real (unat v)"

definition css_rgba :: "real \<Rightarrow> real \<Rightarrow> real \<Rightarrow> real \<Rightarrow> vec4" where
  \<comment> \<open>\<open>rgba(r, g, b, a)\<close> with byte colour channels; CSS clamps the alpha to \<open>[0, 1]\<close>\<close>
  "css_rgba cr cg cb alpha = Vec4 (cr / 255) (cg / 255) (cb / 255) (clamp alpha 0 1)"

definition clearRect :: "rgba8 list \<Rightarrow> rgba8 list" where
  \<comment> \<open>\<open>clearRect\<close> over the whole canvas: every pixel becomes transparent black\<close>
  "clearRect cv = map (\<lambda>_. (0, 0, 0, 0)) cv"

definition fillRect :: "compositor \<Rightarrow> vec4 \<Rightarrow> rgba8 list \<Rightarrow> rgba8 list" where
  \<comment> \<open>\<open>fillRect\<close> over the whole canvas with the fill style \<open>c\<close>\<close>
  "fillRect srcOver c cv = map (\<lambda>dst. srcOver c dst) cv"

definition imagePixel :: "byte list \<Rightarrow> nat \<Rightarrow> vec4" where
  \<comment> \<open>pixel \<open>p\<close> of RGBA image bytes as a colour\<close>
  "imagePixel data p =
     Vec4 (num (data ! (p * 4)) / 255) (num (data ! (p * 4 + 1)) / 255)
          (num (data ! (p * 4 + 2)) / 255) (num (data ! (p * 4 + 3)) / 255)"

definition drawImage :: "compositor \<Rightarrow> (nat \<Rightarrow> nat) \<Rightarrow> byte list \<Rightarrow> rgba8 list \<Rightarrow> rgba8 list" where
  \<comment> \<open>the processing canvas scaled onto the motion canvas with smoothing disabled:
      display pixel \<open>k\<close> takes the image pixel \<open>resample k\<close>\<close>
  "drawImage srcOver resample data cv =
     map (\<lambda>k. srcOver (imagePixel data (resample k)) (cv ! k)) [0..<length cv]"

subsection \<open>The CPU path: the background model and \<open>draw\<close>\<close>

record backgroundModel =
  bm_mean :: "real list"
  bm_variance :: "real list"

record DrawState =
  backgroundModelData :: "backgroundModel option"
  motionCanvas :: "rgba8 list"
  processingCanvas :: "byte list"

function seed_color :: "byte list \<Rightarrow> nat \<Rightarrow> nat \<Rightarrow> real list \<Rightarrow> real list" where
  "seed_color currentData i j mean =
     (if i < length currentData
      then seed_color currentData (i + 4) (j + 1)
             (mean[j * 3 := num (currentData ! i),
                   j * 3 + 1 := num (currentData ! (i + 1)),
                   j * 3 + 2 := num (currentData ! (i + 2))])
      else mean)"
  by pat_completeness auto
termination
  by (relation "measure (\<lambda>(currentData, i, j, mean). length currentData - i)") auto

function seed_luminance :: "byte list \<Rightarrow> nat \<Rightarrow> nat \<Rightarrow> real list \<Rightarrow> real list" where
  "seed_luminance currentData i j mean =
     (if i < length currentData
      then seed_luminance currentData (i + 4) (j + 1)
             (let brightness = (num (currentData ! i) + num (currentData ! (i + 1))
                                 + num (currentData ! (i + 2))) / 3
              in mean[j := brightness])
      else mean)"
  by pat_completeness auto
termination
  by (relation "measure (\<lambda>(currentData, i, j, mean). length currentData - i)") auto

definition seedModel :: "MotionControls \<Rightarrow> byte list \<Rightarrow> nat \<Rightarrow> nat \<Rightarrow> backgroundModel" where
  \<comment> \<open>the \<open>if (!backgroundModelData.current)\<close> block of \<open>draw\<close>\<close>
  "seedModel controls currentData pWidth pHeight =
     (let pSize = pWidth * pHeight;
          initialVariance = 100;
          variance = replicate pSize initialVariance;
          mean = (if detectionMode controls = Color
                  then seed_color currentData 0 0 (replicate (pSize * 3) 0)
                  else seed_luminance currentData 0 0 (replicate pSize 0))
      in \<lparr>bm_mean = mean, bm_variance = variance\<rparr>)"

definition currentBrightness :: "byte list \<Rightarrow> nat \<Rightarrow> real" where
  "currentBrightness currentData i =
     (num (currentData ! i) + num (currentData ! (i + 1)) + num (currentData ! (i + 2))) / 3"

definition isForeground ::
  "MotionControls \<Rightarrow> byte list \<Rightarrow> real list \<Rightarrow> real list \<Rightarrow> nat \<Rightarrow> nat \<Rightarrow> bool" where
  "isForeground controls currentData meanData varianceData i j =
     (let thresholdMultiplier = detectionThreshold controls;
          minVariance = 25;
          r = num (currentData ! i);
          g = num (currentData ! (i + 1));
          b = num (currentData ! (i + 2));
          variance = varianceData ! j
      in if detectionMode controls = Color then
           (let meanR = meanData ! (j * 3);
                meanG = meanData ! (j * 3 + 1);
                meanB = meanData ! (j * 3 + 2);
                colorDist = sqrt ((r - meanR)\<^sup>2 + (g - meanG)\<^sup>2 + (b - meanB)\<^sup>2)
            in colorDist > thresholdMultiplier * sqrt (max variance minVariance))
         else
           (let mean = meanData ! j;
                diff = currentBrightness currentData i - mean
            in \<bar>diff\<bar> > thresholdMultiplier * sqrt (max variance minVariance)))"

definition adaptModel ::
  "MotionControls \<Rightarrow> byte list \<Rightarrow> real list \<Rightarrow> real list \<Rightarrow> nat \<Rightarrow> nat \<Rightarrow> real list \<times> real list" where
  \<comment> \<open>the bodies of the two \<open>if (!isForeground)\<close> blocks\<close>
  "adaptModel controls currentData meanData varianceData i j =
     (let alpha = adaptationRate controls;
          r = num (currentData ! i);
          g = num (currentData ! (i + 1));
          b = num (currentData ! (i + 2));
          variance = varianceData ! j
      in if detectionMode controls = Color then
           (let meanR = meanData ! (j * 3);
                meanG = meanData ! (j * 3 + 1);
                meanB = meanData ! (j * 3 + 2);
                meanBrightness = (meanR + meanG + meanB) / 3;
                diff = currentBrightness currentData i - meanBrightness
            in (meanData[j * 3 := (1 - alpha) * meanR + alpha * r,
                         j * 3 + 1 := (1 - alpha) * meanG + alpha * g,
                         j * 3 + 2 := (1 - alpha) * meanB + alpha * b],
                varianceData[j := (1 - alpha) * variance + alpha * (diff * diff)]))
         else
           (let mean = meanData ! j;
                diff = currentBrightness currentData i - mean
            in (meanData[j := (1 - alpha) * mean + alpha * currentBrightness currentData i],
                varianceData[j := (1 - alpha) * variance + alpha * (diff * diff)])))"

definition paintPixel :: "MotionControls \<Rightarrow> bool \<Rightarrow> nat \<Rightarrow> byte list \<Rightarrow> byte list" where
  \<comment> \<open>the \<open>if (isForeground) ... else ...\<close> that writes \<open>motionData\<close>\<close>
  "paintPixel controls fgd i motionData =
     (let fg = (if invert controls then (0, 0, 0) else (255, 255, 255));
          bg = (if invert controls then (255, 255, 255) else (0, 0, 0));
          colorBurn = (3, 218, 198)
      in if fgd then
           (let (c0, c1, c2) = (if effect controls = ColorBurn \<and> \<not> invert controls
                                then colorBurn else fg)
            in motionData[i := c0, i + 1 := c1, i + 2 := c2, i + 3 := 255])
         else
           (let (c0, c1, c2) = bg
            in motionData[i := c0, i + 1 := c1, i + 2 := c2,
                          i + 3 := (if effect controls = ElectricTrails then 0 else 255)]))"

definition pixel_step ::
  "MotionControls \<Rightarrow> byte list \<Rightarrow> nat \<Rightarrow> nat \<Rightarrow> real list \<times> real list \<times> byte list
     \<Rightarrow> real list \<times> real list \<times> byte list" where
  \<comment> \<open>one iteration of the per-pixel loop of \<open>draw\<close>\<close>
  "pixel_step controls currentData i j st =
     (case st of (meanData, varianceData, motionData) \<Rightarrow>
        (let fgd = isForeground controls currentData meanData varianceData i j;
             (meanData', varianceData') =
               (if \<not> fgd then adaptModel controls currentData meanData varianceData i j
                else (meanData, varianceData))
         in (meanData', varianceData', paintPixel controls fgd i motionData)))"

function draw_loop ::
  "MotionControls \<Rightarrow> byte list \<Rightarrow> nat \<Rightarrow> nat \<Rightarrow> real list \<times> real list \<times> byte list
     \<Rightarrow> real list \<times> real list \<times> byte list" where
  "draw_loop controls currentData i j st =
     (if i < length currentData
      then draw_loop controls currentData (i + 4) (j + 1) (pixel_step controls currentData i j st)
      else st)"
  by pat_completeness auto
termination
  by (relation "measure (\<lambda>(controls, currentData, i, j, st). length currentData - i)") auto

definition fadeOrClear :: "compositor \<Rightarrow> MotionControls \<Rightarrow> rgba8 list \<Rightarrow> rgba8 list" where
  \<comment> \<open>the \<open>if (controls.effect === 'electricTrails')\<close> at the top of \<open>draw\<close>\<close>
  "fadeOrClear srcOver controls cv =
     (if effect controls = ElectricTrails
      then fillRect srcOver (css_rgba 0 0 0 (1 - persistence controls)) cv
      else clearRect cv)"

definition draw ::
  "compositor \<Rightarrow> (nat \<Rightarrow> nat) \<Rightarrow> MotionControls \<Rightarrow> nat \<Rightarrow> nat \<Rightarrow> byte list option
     \<Rightarrow> DrawState \<Rightarrow> DrawState" where
  \<comment> \<open>one call of \<open>draw\<close>. \<open>frame\<close> is \<open>None\<close> when the first guard returns (no video, or
      no decoded frame yet); otherwise it is \<open>currentData\<close>, the bytes read back from the
      processing canvas after the video was drawn onto it. \<open>pWidth\<close> and \<open>pHeight\<close> are
      the processing size, which the code obtains as \<open>Math.floor\<close> of the double products
      \<open>dimensions.width * processingResolution\<close> and \<open>dimensions.height *
      processingResolution\<close>; that arithmetic is outside the model, so its results are
      inputs. The preview canvas that shows the source is not part of the state.\<close>
  "draw srcOver resample controls pWidth pHeight frame s =
     (case frame of
        None \<Rightarrow> s
      | Some currentData \<Rightarrow>
          (let s1 = s\<lparr>motionCanvas := fadeOrClear srcOver controls (motionCanvas s),
                      processingCanvas := currentData\<rparr>
           in case backgroundModelData s of
                None \<Rightarrow>
                  s1\<lparr>backgroundModelData := Some (seedModel controls currentData pWidth pHeight)\<rparr>
              | Some backgroundModel \<Rightarrow>
                  (let (meanData, varianceData, motionData0) =
                         draw_loop controls currentData 0 0
                           (bm_mean backgroundModel, bm_variance backgroundModel,
                            replicate (pWidth * pHeight * 4) 0);
                       motionData =
                         (if morphology controls \<noteq> MorphNone
                          then applyMorphology motionData0 pWidth pHeight (morphology controls)
                          else motionData0)
                   in s1\<lparr>backgroundModelData :=
                            Some \<lparr>bm_mean = meanData, bm_variance = varianceData\<rparr>,
                          processingCanvas := motionData,
                          motionCanvas :=
                            drawImage srcOver resample motionData (motionCanvas s1)\<rparr>)))"

definition resetBackgroundModel :: "DrawState \<Rightarrow> DrawState" where
  \<comment> \<open>the effect that runs when the processing resolution, the detection mode or the
      source changes: \<open>backgroundModelData.current = null\<close>\<close>
  "resetBackgroundModel s = s\<lparr>backgroundModelData := None\<rparr>"

subsection \<open>Initial controls\<close>

definition defaultControls :: MotionControls where
  \<comment> \<open>the initial \<open>useState\<close> value of the GPU front end\<close>
  "defaultControls =
     \<lparr>detectionMode = Color, detectionThreshold = 15, processingResolution = 1,
      noiseReduction = 0, adaptationRate = 0.05, morphology = MorphOpen,
      effect = Classic, invert = False, persistence = 0.85\<rparr>"

subsection \<open>Vocabulary of the statements\<close>

definition rgb :: "vec4 \<Rightarrow> real \<times> real \<times> real" where
  \<comment> \<open>the swizzle \<open>.rgb\<close>\<close>
  "rgb p = (r_of p, g_of p, b_of p)"

definition luma :: "real \<Rightarrow> real \<Rightarrow> real \<Rightarrow> real" where
  \<comment> \<open>the luminance of the specification: \<open>0.299 R + 0.587 G + 0.114 B\<close>\<close>
  "luma cr cg cb = 0.299 * cr + 0.587 * cg + 0.114 * cb"

definition model_at :: "detectionMode \<Rightarrow> real list \<Rightarrow> real list \<Rightarrow> nat \<Rightarrow> real list \<times> real" where
  \<comment> \<open>the cells of the CPU background model that belong to pixel \<open>j\<close>: three mean
      cells in colour mode, one in luminance mode, and the variance cell\<close>
  "model_at mode meanData varianceData j =
     ((if mode = Color then [meanData ! (j * 3), meanData ! (j * 3 + 1), meanData ! (j * 3 + 2)]
       else [meanData ! j]),
      varianceData ! j)"

definition newMotionEngine :: "nat \<Rightarrow> MotionEngine" where
  \<comment> \<open>the engine as its constructor leaves it, on a canvas of \<open>n\<close> pixels whose drawing
      buffer starts transparent black\<close>
  "newMotionEngine n =
     \<lparr>width = 0, height = 0, textures = None, pingPongIndex = 0, isInitialized = False,
      canvas = replicate n (Vec4 0 0 0 0), blendEnabled = False\<rparr>"

definition offsets3 :: "(int \<times> int) set" where
  \<comment> \<open>the offsets of a \<open>3 \<times> 3\<close> window\<close>
  "offsets3 = {-1, 0, 1} \<times> {-1, 0, 1}"

definition foregroundCount :: "byte list \<Rightarrow> nat \<Rightarrow> nat \<Rightarrow> nat" where
  \<comment> \<open>the number of foreground (non-zero) pixels of a CPU mask\<close>
  "foregroundCount data w h = length (filter (\<lambda>p. data ! (p * 4) \<noteq> 0) [0..<w * h])"

definition interior :: "nat \<Rightarrow> nat \<Rightarrow> nat \<Rightarrow> bool" where
  \<comment> \<open>pixel \<open>p\<close> (row-major) has its whole \<open>3 \<times> 3\<close> window inside the image\<close>
  "interior w h p = (0 < p mod w \<and> p mod w + 1 < w \<and> 0 < p div w \<and> p div w + 1 < h)"

definition interiorForegroundCount :: "byte list \<Rightarrow> nat \<Rightarrow> nat \<Rightarrow> nat" where
  "interiorForegroundCount data w h =
     length (filter (\<lambda>p. interior w h p \<and> data ! (p * 4) \<noteq> 0) [0..<w * h])"

definition foregroundCountTex :: "texture \<Rightarrow> nat" where
  \<comment> \<open>the number of foreground texels (positive score) of a GPU mask\<close>
  "foregroundCountTex t = length (filter (\<lambda>v. 0 < r_of v) t)"

definition inBoundsNeighbours :: "nat \<Rightarrow> nat \<Rightarrow> nat \<Rightarrow> nat \<Rightarrow> (nat \<times> nat) set" where
  \<comment> \<open>the part of the \<open>3 \<times> 3\<close> window of \<open>(x, y)\<close> that lies inside a \<open>w \<times> h\<close> image\<close>
  "inBoundsNeighbours w h x y =
     {(x', y'). x' < w \<and> y' < h \<and> x' \<le> x + 1 \<and> x \<le> x' + 1 \<and> y' \<le> y + 1 \<and> y \<le> y' + 1}"

definition zeroPadded :: "texture \<Rightarrow> nat \<Rightarrow> nat \<Rightarrow> int \<Rightarrow> int \<Rightarrow> real" where
  \<comment> \<open>the reading of the specification: a neighbour outside the image counts as 0\<close>
  "zeroPadded t w h x y =
     (if x < 0 \<or> x \<ge> int w \<or> y < 0 \<or> y \<ge> int h then 0
      else r_of (t ! (nat y * w + nat x)))"

section \<open>Properties\<close>

subsection \<open>GLSL built-ins\<close>

lemma mix_zero: "mix x y 0 = x"
  by (simp add: mix_def)

lemma smoothstep_low: "e0 < e1 \<Longrightarrow> x \<le> e0 \<Longrightarrow> smoothstep e0 e1 x = 0"
  by (simp add: smoothstep_def clamp_def Let_def max_def min_def divide_le_0_iff)

lemma smoothstep_high:
  assumes "e0 < e1" and "e1 \<le> x"
  shows "smoothstep e0 e1 x = 1"
proof -
  from assms have "1 \<le> (x - e0) / (e1 - e0)"
    by (simp add: le_divide_eq)
  then have "clamp ((x - e0) / (e1 - e0)) 0 1 = 1"
    by (simp add: clamp_def)
  then show ?thesis
    by (simp add: smoothstep_def)
qed

lemma bgsub_edge_pos: "0 < thr \<Longrightarrow> 0 < mv \<Longrightarrow> 0 < bgsub_edge thr mv variance"
  by (simp add: bgsub_edge_def bgsub_var_def max_def)

subsection \<open>The variance update\<close>

text \<open>
  What the shader computes in luminance mode: the difference \<open>d\<close> is taken against
  \<open>newMean.r\<close>, the mean after this tick's update, so the squared deviation is scaled
  by \<open>(1 - alpha)\<^sup>2\<close>.
\<close>

lemma gpu_luminance_variance_update:
  "backgroundSubtraction rate thr False mv current mean variance = (m', v', k) \<Longrightarrow>
   alpha = rate * (1 - r_of k) \<Longrightarrow>
   r_of v' = mix (r_of variance) (((1 - alpha) * (curLum current - r_of mean))\<^sup>2) alpha"
proof -
  assume eq: "backgroundSubtraction rate thr False mv current mean variance = (m', v', k)"
    and al: "alpha = rate * (1 - r_of k)"
  have d: "curLum current - mix (r_of mean) (curLum current) alpha
             = (1 - alpha) * (curLum current - r_of mean)"
    by (simp add: mix_def algebra_simps)
  from eq al have "r_of v' = mix (r_of variance)
      ((curLum current - mix (r_of mean) (curLum current) alpha)
        * (curLum current - mix (r_of mean) (curLum current) alpha)) alpha"
    by (auto simp add: backgroundSubtraction_def Let_def)
  then show ?thesis
    by (simp only: d power2_eq_square)
qed

text \<open>The sibling paths take the deviation from the mean as it was before the update.\<close>

lemma gpu_color_variance_update:
  "backgroundSubtraction rate thr True mv current mean variance = (m', v', k) \<Longrightarrow>
   alpha = rate * (1 - r_of k) \<Longrightarrow>
   r_of v' = mix (r_of variance)
               ((dot3 current 0.333 0.333 0.333 - dot3 mean 0.333 0.333 0.333)\<^sup>2) alpha"
  by (auto simp add: backgroundSubtraction_def Let_def power2_eq_square)

lemma cpu_luminance_variance_update:
  "detectionMode controls = Luminance \<Longrightarrow> j < length varianceData \<Longrightarrow>
   snd (adaptModel controls currentData meanData varianceData i j) ! j =
     mix (varianceData ! j) ((currentBrightness currentData i - meanData ! j)\<^sup>2)
         (adaptationRate controls)"
  by (simp add: adaptModel_def Let_def mix_def power2_eq_square)

lemma cpu_color_variance_update:
  "detectionMode controls = Color \<Longrightarrow> j < length varianceData \<Longrightarrow>
   snd (adaptModel controls currentData meanData varianceData i j) ! j =
     mix (varianceData ! j)
         ((currentBrightness currentData i
            - (meanData ! (j * 3) + meanData ! (j * 3 + 1) + meanData ! (j * 3 + 2)) / 3)\<^sup>2)
         (adaptationRate controls)"
  by (simp add: adaptModel_def Let_def mix_def power2_eq_square)

lemma first_dark_pixel_is_background:
  "bgsub_soft 1 False 0.05 (Vec4 (1/15) (1/15) (1/15) 1) (Vec4 0 0 0 0) (Vec4 0 0 0 0) = 0"
proof -
  have "(1/9)\<^sup>2 \<le> (0.05::real)"
    by (simp add: power2_eq_square)
  then have "1/9 \<le> sqrt 0.05"
    by (rule real_le_rsqrt)
  then have "1/15 \<le> sqrt 0.05 * 0.6"
    by simp
  moreover have "sqrt 0.05 * 0.6 < sqrt 0.05 * 1.4"
    by simp
  ultimately show ?thesis
    by (simp add: bgsub_soft_def bgsub_edge_def bgsub_var_def bgsub_dist_def curLum_def
        dot3_def smoothstep_low)
qed

text \<open>
  Claim C1. The variance update is meant to mix in the squared deviation of the current
  luminance from the mean held before this tick's update. In the GPU path in luminance
  mode the code does otherwise. On the first frame after \<open>init\<close> (mean and variance
  textures zero), with luminance detection, threshold 10 and adaptation rate 0.05, a
  pixel of value \<open>17/255 = 1/15\<close> is scored background, so the weight is 0.05. The
  shader writes the variance \<open>361/1800000\<close>, which is \<open>0.05 \<sqdot> (1/15 - 1/300)\<^sup>2\<close>: the
  deviation from the updated mean \<open>1/300\<close>. With the mean before the update the value
  would be \<open>mix(0, (1/15)\<^sup>2, 0.05) = 1/4500\<close>.
\<close>

theorem C1_gpu_luminance_variance_uses_updated_mean:
  "bgSubPass (defaultControls\<lparr>detectionMode := Luminance, detectionThreshold := 10\<rparr>) 1 1
      [Vec4 (1/15) (1/15) (1/15) 1] (createTex 1 1) (createTex 1 1)
     = [(Vec4 (1/300) 0 0 1, Vec4 (361/1800000) 0 0 1, Vec4 0 0 0 1)]
   \<and> mix 0 ((curLum (Vec4 (1/15) (1/15) (1/15) 1) - 0)\<^sup>2) (0.05 * (1 - 0)) = 1/4500"
  using first_dark_pixel_is_background
  by (simp add: bgSubPass_def drawQuad_def defaultControls_def createTex_def texture_at_def
      clampi_def backgroundSubtraction_def Let_def mix_def curLum_def dot3_def
      power2_eq_square)


lemma texture_at_index: "k < w * h \<Longrightarrow> texture_at t w h (int (k mod w)) (int (k div w)) = t ! k"
proof -
  assume k: "k < w * h"
  then have w: "0 < w" by (cases w) auto
  from k have d: "k div w < h" by (simp add: less_mult_imp_div_less mult.commute)
  have m: "k mod w < w" using w by simp
  have "clampi (int (k div w)) 0 (int h - 1) = int (k div w)"
    using d by (simp add: clampi_def)
  moreover have "clampi (int (k mod w)) 0 (int w - 1) = int (k mod w)"
    using m by (simp add: clampi_def)
  ultimately show ?thesis by (simp add: texture_at_def)
qed

lemma bgSubPass_nth:
  "k < w * h \<Longrightarrow> bgSubPass controls w h video mean variance ! k =
     backgroundSubtraction (adaptationRate controls) (detectionThreshold controls / 10)
         (detectionMode controls = Color) 0.05 (video ! k) (mean ! k) (variance ! k)"
  by (simp add: bgSubPass_def drawQuad_def texture_at_index)

lemma bgSubPass_length: "length (bgSubPass controls w h video mean variance) = w * h"
  by (simp add: bgSubPass_def drawQuad_def)

lemma backgroundSubtraction_mask:
  "snd (snd (backgroundSubtraction rate thr cm mv current mean variance)) =
    (let s = bgsub_soft thr cm mv current mean variance in Vec4 s s s 1)"
  by (simp add: backgroundSubtraction_def Let_def split: prod.splits)

lemma bgsub_soft_one_unchanged:
  assumes "bgsub_soft thr cm mv current mean variance = 1"
  shows "backgroundSubtraction rate thr cm mv current mean variance =
     (Vec4 (r_of mean) (g_of mean) (b_of mean) 1,
      Vec4 (r_of variance) (g_of variance) (b_of variance) 1, Vec4 1 1 1 1)"
  using assms by (simp add: backgroundSubtraction_def Let_def mix4_def mix_def)

lemma render_model:
  assumes "isInitialized s" and "textures s = Some t"
  shows "\<exists>s' t'. render fx video controls s = Inr s' \<and> textures s' = Some t'
     \<and> pingPongIndex s' = (pingPongIndex s + 1) mod 2
     \<and> pp_get (tex_mean t') (pingPongIndex s') =
          map fst (bgSubPass controls (width s) (height s) video
             (pp_get (tex_mean t) (pingPongIndex s)) (pp_get (tex_variance t) (pingPongIndex s)))
     \<and> pp_get (tex_variance t') (pingPongIndex s') =
          map (fst \<circ> snd) (bgSubPass controls (width s) (height s) video
             (pp_get (tex_mean t) (pingPongIndex s)) (pp_get (tex_variance t) (pingPongIndex s)))"
  using assms
  by (cases "morphology controls")
     (simp_all add: render_def Let_def pp_get_def pp_set_def split: prod.splits)


lemma isForeground_cong:
  "model_at (detectionMode controls) m v j = model_at (detectionMode controls) m' v' j \<Longrightarrow>
   isForeground controls cur m v i j = isForeground controls cur m' v' i j"
  by (cases "detectionMode controls") (simp_all add: isForeground_def model_at_def Let_def)

lemma adaptModel_other:
  "j' \<noteq> j \<Longrightarrow> adaptModel controls cur m v i j' = (m', v') \<Longrightarrow>
   model_at (detectionMode controls) m' v' j = model_at (detectionMode controls) m v j"
proof (cases "detectionMode controls")
  case Color
  assume ne: "j' \<noteq> j" and eq: "adaptModel controls cur m v i j' = (m', v')"
  have "j' * 3 \<noteq> j * 3" "j' * 3 \<noteq> j * 3 + 1" "j' * 3 \<noteq> j * 3 + 2"
       "j' * 3 + 1 \<noteq> j * 3" "j' * 3 + 1 \<noteq> j * 3 + 1" "j' * 3 + 1 \<noteq> j * 3 + 2"
       "j' * 3 + 2 \<noteq> j * 3" "j' * 3 + 2 \<noteq> j * 3 + 1" "j' * 3 + 2 \<noteq> j * 3 + 2"
    using ne by presburger+
  then show ?thesis using Color eq ne
    by (simp add: adaptModel_def model_at_def Let_def) (auto simp add: nth_list_update)
next
  case Luminance
  assume ne: "j' \<noteq> j" and eq: "adaptModel controls cur m v i j' = (m', v')"
  then show ?thesis using Luminance
    by (auto simp add: adaptModel_def model_at_def Let_def)
qed


lemma pixel_step_other:
  "j' \<noteq> j \<Longrightarrow> pixel_step controls cur i j' (m, v, md) = (m', v', md') \<Longrightarrow>
   model_at (detectionMode controls) m' v' j = model_at (detectionMode controls) m v j"
proof -
  assume ne: "j' \<noteq> j" and eq: "pixel_step controls cur i j' (m, v, md) = (m', v', md')"
  show ?thesis
  proof (cases "isForeground controls cur m v i j'")
    case True
    with eq show ?thesis by (simp add: pixel_step_def Let_def)
  next
    case False
    with eq have "adaptModel controls cur m v i j' = (m', v')"
      by (simp add: pixel_step_def Let_def split: prod.splits)
    with ne show ?thesis by (rule adaptModel_other)
  qed
qed

lemma pixel_step_foreground:
  "isForeground controls cur m v i j \<Longrightarrow> pixel_step controls cur i j (m, v, md) = (m', v', md') \<Longrightarrow>
   m' = m \<and> v' = v"
  by (simp add: pixel_step_def Let_def)

lemma draw_loop_model_at:
  "draw_loop controls cur i j0 st = (m', v', md') \<Longrightarrow> st = (m, v, md) \<Longrightarrow> i = 4 * j0 \<Longrightarrow>
   j < j0 \<or> isForeground controls cur m v (4 * j) j \<Longrightarrow>
   model_at (detectionMode controls) m' v' j = model_at (detectionMode controls) m v j"
proof (induction controls cur i j0 st arbitrary: m v md rule: draw_loop.induct)
  case (1 controls cur i j0 st)
  show ?case
  proof (cases "i < length cur")
    case False
    with "1.prems" show ?thesis by simp
  next
    case True
    obtain m1 v1 md1 where st1: "pixel_step controls cur i j0 st = (m1, v1, md1)"
      by (cases "pixel_step controls cur i j0 st") auto
    from True "1.prems"(1) st1
    have loop: "draw_loop controls cur (i + 4) (j0 + 1) (pixel_step controls cur i j0 st) = (m', v', md')"
      by (simp del: draw_loop.simps add: draw_loop.simps[of controls cur i j0 st])
    have st1': "pixel_step controls cur i j0 (m, v, md) = (m1, v1, md1)"
      using st1 "1.prems"(2) by simp
    have keep: "model_at (detectionMode controls) m1 v1 j = model_at (detectionMode controls) m v j"
    proof (cases "j = j0")
      case True
      with "1.prems" have "isForeground controls cur m v i j0" by auto
      then have "m1 = m \<and> v1 = v" using st1' by (rule pixel_step_foreground)
      then show ?thesis by simp
    next
      case False
      then have "j0 \<noteq> j" by simp
      then show ?thesis using st1' by (rule pixel_step_other)
    qed
    have next_ok: "j < j0 + 1 \<or> isForeground controls cur m1 v1 (4 * j) j"
      using "1.prems"(4) keep isForeground_cong[of controls m1 v1 j m v cur "4 * j"]
      by auto
    have "model_at (detectionMode controls) m' v' j = model_at (detectionMode controls) m1 v1 j"
      using "1.IH"[OF True loop st1] "1.prems"(3) next_ok by simp
    with keep show ?thesis by simp
  qed
qed


lemma cpu_foreground_tick:
  assumes "backgroundModelData s = Some bm"
    and "isForeground controls cur (bm_mean bm) (bm_variance bm) (4 * j) j"
  shows "\<exists>bm'. backgroundModelData (draw srcOver resample controls pWidth pHeight (Some cur) s) = Some bm'
     \<and> model_at (detectionMode controls) (bm_mean bm') (bm_variance bm') j
         = model_at (detectionMode controls) (bm_mean bm) (bm_variance bm) j"
proof -
  let ?md = "replicate (pWidth * pHeight * 4) (0 :: byte)"
  obtain m' v' md' where loop:
    "draw_loop controls cur 0 0 (bm_mean bm, bm_variance bm, ?md) = (m', v', md')"
    by (cases "draw_loop controls cur 0 0 (bm_mean bm, bm_variance bm, ?md)") auto
  have "model_at (detectionMode controls) m' v' j
          = model_at (detectionMode controls) (bm_mean bm) (bm_variance bm) j"
    using draw_loop_model_at[OF loop refl, of j] assms(2) by simp
  moreover have "backgroundModelData (draw srcOver resample controls pWidth pHeight (Some cur) s)
                   = Some \<lparr>bm_mean = m', bm_variance = v'\<rparr>"
    using assms(1) loop by (simp add: draw_def Let_def)
  ultimately show ?thesis by simp
qed

lemma gpu_score_one_tick:
  assumes "isInitialized s" and "textures s = Some t" and "k < width s * height s"
    and "bgsub_soft (detectionThreshold controls / 10) (detectionMode controls = Color) 0.05
           (video ! k) (pp_get (tex_mean t) (pingPongIndex s) ! k)
           (pp_get (tex_variance t) (pingPongIndex s) ! k) = 1"
  shows "\<exists>s' t'. render fx video controls s = Inr s' \<and> textures s' = Some t'
     \<and> rgb (pp_get (tex_mean t') (pingPongIndex s') ! k)
         = rgb (pp_get (tex_mean t) (pingPongIndex s) ! k)
     \<and> rgb (pp_get (tex_variance t') (pingPongIndex s') ! k)
         = rgb (pp_get (tex_variance t) (pingPongIndex s) ! k)"
proof -
  let ?out = "bgSubPass controls (width s) (height s) video
             (pp_get (tex_mean t) (pingPongIndex s)) (pp_get (tex_variance t) (pingPongIndex s))"
  from render_model[OF assms(1,2), of fx video controls]
  obtain s' t' where r: "render fx video controls s = Inr s'" "textures s' = Some t'"
    and m: "pp_get (tex_mean t') (pingPongIndex s') = map fst ?out"
    and v: "pp_get (tex_variance t') (pingPongIndex s') = map (fst \<circ> snd) ?out"
    by blast
  have len: "k < length ?out" using assms(3) by (simp add: bgSubPass_length)
  have out: "?out ! k =
     (Vec4 (r_of (pp_get (tex_mean t) (pingPongIndex s) ! k)) (g_of (pp_get (tex_mean t) (pingPongIndex s) ! k))
           (b_of (pp_get (tex_mean t) (pingPongIndex s) ! k)) 1,
      Vec4 (r_of (pp_get (tex_variance t) (pingPongIndex s) ! k)) (g_of (pp_get (tex_variance t) (pingPongIndex s) ! k))
           (b_of (pp_get (tex_variance t) (pingPongIndex s) ! k)) 1, Vec4 1 1 1 1)"
    using assms(3,4) by (simp add: bgSubPass_nth bgsub_soft_one_unchanged)
  have "rgb (pp_get (tex_mean t') (pingPongIndex s') ! k) = rgb (pp_get (tex_mean t) (pingPongIndex s) ! k)"
    using len out by (simp add: m rgb_def)
  moreover have "rgb (pp_get (tex_variance t') (pingPongIndex s') ! k) = rgb (pp_get (tex_variance t) (pingPongIndex s) ! k)"
    using len out by (simp add: v rgb_def)
  ultimately show ?thesis using r by blast
qed


subsection \<open>Selective adaptation\<close>

lemma sqrt_100: "sqrt 100 = 10"
  by (rule real_sqrt_unique) simp_all

lemma white_on_fresh_model_scores_one:
  "bgsub_soft (15 / 10) True 0.05 (Vec4 1 1 1 1) (Vec4 0 0 0 0) (Vec4 0 0 0 0) = 1"
proof -
  have "sqrt 0.05 \<le> 1/4"
    by (rule real_le_lsqrt) (simp_all add: power2_eq_square)
  then have a: "15 / 10 * sqrt 0.05 * 1.4 \<le> 1" by simp
  have "1 \<le> sqrt 3" by simp
  with a have hi: "15 / 10 * sqrt 0.05 * 1.4 \<le> sqrt 3" by linarith
  have "0 < sqrt 0.05" by simp
  then have lo: "15 / 10 * sqrt 0.05 * 0.6 < 15 / 10 * sqrt 0.05 * 1.4" by simp
  have "smoothstep (15 / 10 * sqrt 0.05 * 0.6) (15 / 10 * sqrt 0.05 * 1.4) (sqrt 3) = 1"
    using lo hi by (rule smoothstep_high)
  then show ?thesis
    by (simp add: bgsub_soft_def bgsub_edge_def bgsub_var_def bgsub_dist_def length3_def)
qed

lemma white_on_black_model_is_foreground:
  "isForeground defaultControls [255, 255, 255, 255] [0, 0, 0] [100] (4 * 0) 0"
proof -
  have "(150::real)\<^sup>2 < 195075" by simp
  then have "150 < sqrt 195075" by (rule real_less_rsqrt)
  then show ?thesis
    by (simp add: isForeground_def defaultControls_def Let_def num_def sqrt_100)
qed

text \<open>
  Claim C4. A pixel whose motion score is 1 keeps its background model through the tick.
  GPU path: when the soft score of pixel \<open>k\<close> is 1, \<open>render\<close> succeeds and the mean and
  variance texels that the next tick reads at \<open>k\<close> have the colour channels of the texels
  this tick read. CPU path: when pixel \<open>j\<close> is classified foreground against the model
  the tick starts with, \<open>draw\<close> leaves the mean and variance cells of pixel \<open>j\<close> as they
  were.
\<close>

theorem C4_foreground_leaves_model_unchanged:
  "(isInitialized s \<and> textures s = Some t \<and> k < width s * height s
      \<and> bgsub_soft (detectionThreshold controls / 10) (detectionMode controls = Color) 0.05
           (video ! k) (pp_get (tex_mean t) (pingPongIndex s) ! k)
           (pp_get (tex_variance t) (pingPongIndex s) ! k) = 1
    \<longrightarrow> (\<exists>s' t'. render fx video controls s = Inr s' \<and> textures s' = Some t'
          \<and> rgb (pp_get (tex_mean t') (pingPongIndex s') ! k)
              = rgb (pp_get (tex_mean t) (pingPongIndex s) ! k)
          \<and> rgb (pp_get (tex_variance t') (pingPongIndex s') ! k)
              = rgb (pp_get (tex_variance t) (pingPongIndex s) ! k)))
   \<and> (backgroundModelData cs = Some bm
      \<and> isForeground ccontrols cur (bm_mean bm) (bm_variance bm) (4 * j) j
    \<longrightarrow> (\<exists>bm'. backgroundModelData (draw srcOver resample ccontrols pWidth pHeight (Some cur) cs) = Some bm'
          \<and> model_at (detectionMode ccontrols) (bm_mean bm') (bm_variance bm') j
              = model_at (detectionMode ccontrols) (bm_mean bm) (bm_variance bm) j))"
  using gpu_score_one_tick[of s t k controls video fx]
    cpu_foreground_tick[of cs bm ccontrols cur j srcOver resample pWidth pHeight]
  by blast

text \<open>
  Both hypotheses hold at a white pixel: on a freshly initialised \<open>1 \<times> 1\<close> engine with the
  default controls, and on a CPU model with mean black and variance 100.
\<close>

theorem C4_witness:
  "(\<exists>s' t'. render (\<lambda>_ _ _ _ _ _ _ _. (0, 0, 0)) [Vec4 1 1 1 1] defaultControls
                (init 1 1 (newMotionEngine 1)) = Inr s'
        \<and> textures s' = Some t'
        \<and> rgb (pp_get (tex_mean t') (pingPongIndex s') ! 0) = (0, 0, 0)
        \<and> rgb (pp_get (tex_variance t') (pingPongIndex s') ! 0) = (0, 0, 0))
   \<and> (\<exists>bm'. backgroundModelData
              (draw (\<lambda>c d. d) id defaultControls 1 1 (Some [255, 255, 255, 255])
                 \<lparr>backgroundModelData = Some \<lparr>bm_mean = [0, 0, 0], bm_variance = [100]\<rparr>,
                  motionCanvas = [(0, 0, 0, 0)], processingCanvas = [0, 0, 0, 0]\<rparr>) = Some bm'
        \<and> model_at Color (bm_mean bm') (bm_variance bm') 0 = ([0, 0, 0], 100))"
proof -
  let ?s = "init 1 1 (newMotionEngine 1)"
  let ?t = "createTexturesAndFBOs 1 1"
  let ?bm = "\<lparr>bm_mean = [0, 0, 0], bm_variance = [100::real]\<rparr>"
  let ?cs = "\<lparr>backgroundModelData = Some ?bm,
             motionCanvas = [(0, 0, 0, 0)], processingCanvas = [0, 0, 0, 0 :: byte]\<rparr>"
  have g: "isInitialized ?s \<and> textures ?s = Some ?t \<and> 0 < width ?s * height ?s
      \<and> bgsub_soft (detectionThreshold defaultControls / 10) (detectionMode defaultControls = Color) 0.05
           ([Vec4 1 1 1 1] ! 0) (pp_get (tex_mean ?t) (pingPongIndex ?s) ! 0)
           (pp_get (tex_variance ?t) (pingPongIndex ?s) ! 0) = 1"
    using white_on_fresh_model_scores_one
    by (simp add: init_def newMotionEngine_def createTexturesAndFBOs_def createTex_def
        pp_get_def defaultControls_def)
  have c: "backgroundModelData ?cs = Some ?bm
      \<and> isForeground defaultControls [255, 255, 255, 255] (bm_mean ?bm) (bm_variance ?bm) (4 * 0) 0"
    using white_on_black_model_is_foreground by simp
  have m0: "rgb (pp_get (tex_mean ?t) (pingPongIndex ?s) ! 0) = (0, 0, 0)"
       "rgb (pp_get (tex_variance ?t) (pingPongIndex ?s) ! 0) = (0, 0, 0)"
    by (simp_all add: init_def newMotionEngine_def createTexturesAndFBOs_def createTex_def
        pp_get_def rgb_def)
  have m1: "model_at (detectionMode defaultControls) (bm_mean ?bm) (bm_variance ?bm) 0 = ([0, 0, 0], 100)"
           "detectionMode defaultControls = Color"
    by (simp_all add: model_at_def defaultControls_def)
  note inst = C4_foreground_leaves_model_unchanged[of ?s ?t 0 defaultControls "[Vec4 1 1 1 1]"
      "\<lambda>_ _ _ _ _ _ _ _. (0, 0, 0)" ?cs ?bm defaultControls "[255, 255, 255, 255]" 0
      "\<lambda>c d. d" id 1 1]
  from inst g obtain s' t' where
    gr: "render (\<lambda>_ _ _ _ _ _ _ _. (0, 0, 0)) [Vec4 1 1 1 1] defaultControls ?s = Inr s'"
        "textures s' = Some t'"
        "rgb (pp_get (tex_mean t') (pingPongIndex s') ! 0)
           = rgb (pp_get (tex_mean ?t) (pingPongIndex ?s) ! 0)"
        "rgb (pp_get (tex_variance t') (pingPongIndex s') ! 0)
           = rgb (pp_get (tex_variance ?t) (pingPongIndex ?s) ! 0)"
    by blast
  from inst c obtain bm' where
    cr: "backgroundModelData (draw (\<lambda>c d. d) id defaultControls 1 1 (Some [255, 255, 255, 255]) ?cs) = Some bm'"
        "model_at (detectionMode defaultControls) (bm_mean bm') (bm_variance bm') 0
           = model_at (detectionMode defaultControls) (bm_mean ?bm) (bm_variance ?bm) 0"
    by blast
  from gr m0 have "\<exists>s' t'. render (\<lambda>_ _ _ _ _ _ _ _. (0, 0, 0)) [Vec4 1 1 1 1] defaultControls ?s = Inr s'
        \<and> textures s' = Some t'
        \<and> rgb (pp_get (tex_mean t') (pingPongIndex s') ! 0) = (0, 0, 0)
        \<and> rgb (pp_get (tex_variance t') (pingPongIndex s') ! 0) = (0, 0, 0)"
    by auto
  moreover from cr m1 have "\<exists>bm'. backgroundModelData
              (draw (\<lambda>c d. d) id defaultControls 1 1 (Some [255, 255, 255, 255]) ?cs) = Some bm'
        \<and> model_at Color (bm_mean bm') (bm_variance bm') 0 = ([0, 0, 0], 100)"
    by auto
  ultimately show ?thesis by blast
qed


subsection \<open>Distance, edge and score\<close>

lemma sqrt_64: "sqrt 64 = 8"
  by (rule real_sqrt_unique) simp_all

lemma bgSubPass_score:
  "k < w * h \<Longrightarrow>
   r_of (snd (snd (bgSubPass controls w h video mean variance ! k))) =
     smoothstep (0.6 * (detectionThreshold controls / 10 * sqrt (max (r_of (variance ! k)) 0.05)))
                (1.4 * (detectionThreshold controls / 10 * sqrt (max (r_of (variance ! k)) 0.05)))
                (bgsub_dist (detectionMode controls = Color) (video ! k) (mean ! k))"
  by (simp add: bgSubPass_nth backgroundSubtraction_mask bgsub_soft_def bgsub_edge_def
      bgsub_var_def Let_def mult.commute)

lemma gpu_edge_pos:
  "0 < (thr::real) \<Longrightarrow> 0 < thr / 10 * sqrt (max v 0.05)"
  by (simp add: max_def)

lemma isForeground_luminance:
  "detectionMode controls = Luminance \<Longrightarrow>
   isForeground controls cur meanData varianceData i j \<longleftrightarrow>
     \<bar>(num (cur ! i) + num (cur ! (i + 1)) + num (cur ! (i + 2))) / 3 - meanData ! j\<bar>
       > detectionThreshold controls * sqrt (max (varianceData ! j) 25)"
  by (simp add: isForeground_def currentBrightness_def Let_def)

lemma isForeground_color:
  "detectionMode controls = Color \<Longrightarrow>
   isForeground controls cur meanData varianceData i j \<longleftrightarrow>
     sqrt ((num (cur ! i) - meanData ! (j * 3))\<^sup>2 + (num (cur ! (i + 1)) - meanData ! (j * 3 + 1))\<^sup>2
           + (num (cur ! (i + 2)) - meanData ! (j * 3 + 2))\<^sup>2)
       > detectionThreshold controls * sqrt (max (varianceData ! j) 25)"
  by (simp add: isForeground_def Let_def)

text \<open>
  Claim C7. GPU path: at every pixel the shader's edge is \<open>threshold / 10\<close> times the
  square root of \<open>max(variance, minVariance)\<close> (with \<open>minVariance = 0.05\<close>), the soft
  score written to the mask is \<open>smoothstep(0.6 edge, 1.4 edge, dist)\<close>, and for a
  positive threshold (the slider's range starts at 1) the score is 0 when
  \<open>dist \<le> 0.6 edge\<close> and 1 when \<open>dist \<ge> 1.4 edge\<close>. CPU path: the threshold is used as
  it is: a pixel is foreground exactly when its distance exceeds
  \<open>threshold \<sqdot> sqrt(max(variance, 25))\<close>.
\<close>

theorem C7_adaptive_edge_and_soft_score:
  "(k < w * h \<longrightarrow>
      (let edge = detectionThreshold controls / 10 * sqrt (max (r_of (variance ! k)) 0.05);
           dist = bgsub_dist (detectionMode controls = Color) (video ! k) (mean ! k);
           score = r_of (snd (snd (bgSubPass controls w h video mean variance ! k)))
       in score = smoothstep (0.6 * edge) (1.4 * edge) dist
          \<and> (0 < detectionThreshold controls \<and> dist \<le> 0.6 * edge \<longrightarrow> score = 0)
          \<and> (0 < detectionThreshold controls \<and> 1.4 * edge \<le> dist \<longrightarrow> score = 1)))
   \<and> (isForeground ccontrols cur meanData varianceData i j \<longleftrightarrow>
        (if detectionMode ccontrols = Color
         then sqrt ((num (cur ! i) - meanData ! (j * 3))\<^sup>2
                    + (num (cur ! (i + 1)) - meanData ! (j * 3 + 1))\<^sup>2
                    + (num (cur ! (i + 2)) - meanData ! (j * 3 + 2))\<^sup>2)
         else \<bar>currentBrightness cur i - meanData ! j\<bar>)
          > detectionThreshold ccontrols * sqrt (max (varianceData ! j) 25))"
proof -
  let ?edge = "detectionThreshold controls / 10 * sqrt (max (r_of (variance ! k)) 0.05)"
  let ?dist = "bgsub_dist (detectionMode controls = Color) (video ! k) (mean ! k)"
  have lt: "0 < detectionThreshold controls \<Longrightarrow> 0.6 * ?edge < 1.4 * ?edge"
    using gpu_edge_pos[of "detectionThreshold controls" "r_of (variance ! k)"] by simp
  have lo: "0 < detectionThreshold controls \<Longrightarrow> ?dist \<le> 0.6 * ?edge \<Longrightarrow>
              smoothstep (0.6 * ?edge) (1.4 * ?edge) ?dist = 0"
    using lt by (rule smoothstep_low)
  have hi: "0 < detectionThreshold controls \<Longrightarrow> 1.4 * ?edge \<le> ?dist \<Longrightarrow>
              smoothstep (0.6 * ?edge) (1.4 * ?edge) ?dist = 1"
    using lt by (rule smoothstep_high)
  have gpu: "k < w * h \<longrightarrow>
      (let edge = ?edge; dist = ?dist;
           score = r_of (snd (snd (bgSubPass controls w h video mean variance ! k)))
       in score = smoothstep (0.6 * edge) (1.4 * edge) dist
          \<and> (0 < detectionThreshold controls \<and> dist \<le> 0.6 * edge \<longrightarrow> score = 0)
          \<and> (0 < detectionThreshold controls \<and> 1.4 * edge \<le> dist \<longrightarrow> score = 1))"
    unfolding Let_def using bgSubPass_score[of k w h controls video mean variance] lo hi
    by auto
  have cpu: "isForeground ccontrols cur meanData varianceData i j \<longleftrightarrow>
        (if detectionMode ccontrols = Color
         then sqrt ((num (cur ! i) - meanData ! (j * 3))\<^sup>2
                    + (num (cur ! (i + 1)) - meanData ! (j * 3 + 1))\<^sup>2
                    + (num (cur ! (i + 2)) - meanData ! (j * 3 + 2))\<^sup>2)
         else \<bar>currentBrightness cur i - meanData ! j\<bar>)
          > detectionThreshold ccontrols * sqrt (max (varianceData ! j) 25)"
    by (cases "detectionMode ccontrols")
       (simp_all add: isForeground_color isForeground_luminance currentBrightness_def)
  from gpu cpu show ?thesis by (rule conjI)
qed


text \<open>
  The three hypotheses at concrete pixels of a \<open>1 \<times> 1\<close> frame over a zero model: white
  under the default controls lies above \<open>1.4 edge\<close>, and the dark pixel \<open>1/15\<close> in
  luminance mode with threshold 10 lies below \<open>0.6 edge\<close>.
\<close>

theorem C7_witness:
  "r_of (snd (snd (bgSubPass defaultControls 1 1
                     [Vec4 1 1 1 1] [Vec4 0 0 0 0] [Vec4 0 0 0 0] ! 0))) = 1
   \<and> r_of (snd (snd (bgSubPass (defaultControls\<lparr>detectionMode := Luminance, detectionThreshold := 10\<rparr>)
                     1 1 [Vec4 (1/15) (1/15) (1/15) 1] [Vec4 0 0 0 0] [Vec4 0 0 0 0] ! 0))) = 0"
proof -
  let ?lum = "defaultControls\<lparr>detectionMode := Luminance, detectionThreshold := 10\<rparr>"
  have k: "(0::nat) < 1 * 1" by simp
  have "sqrt 0.05 \<le> 1/4"
    by (rule real_le_lsqrt) (simp_all add: power2_eq_square)
  then have "1.4 * (15 / 10 * sqrt 0.05) \<le> 1" by simp
  moreover have "1 \<le> sqrt 3" by simp
  ultimately have "1.4 * (15 / 10 * sqrt 0.05) \<le> sqrt 3" by linarith
  then have hi: "0 < detectionThreshold defaultControls
     \<and> 1.4 * (detectionThreshold defaultControls / 10 * sqrt (max (r_of ([Vec4 0 0 0 0] ! 0)) 0.05))
        \<le> bgsub_dist (detectionMode defaultControls = Color) ([Vec4 1 1 1 1] ! 0) ([Vec4 0 0 0 0] ! 0)"
    by (simp add: defaultControls_def bgsub_dist_def length3_def)
  have "(1/9)\<^sup>2 \<le> (0.05::real)"
    by (simp add: power2_eq_square)
  then have "1/9 \<le> sqrt 0.05"
    by (rule real_le_rsqrt)
  then have "1/15 \<le> 0.6 * (10 / 10 * sqrt 0.05)"
    by simp
  then have lo: "0 < detectionThreshold ?lum
     \<and> bgsub_dist (detectionMode ?lum = Color) ([Vec4 (1/15) (1/15) (1/15) 1] ! 0) ([Vec4 0 0 0 0] ! 0)
        \<le> 0.6 * (detectionThreshold ?lum / 10 * sqrt (max (r_of ([Vec4 0 0 0 0] ! 0)) 0.05))"
    by (simp add: defaultControls_def bgsub_dist_def curLum_def dot3_def)
  from C7_adaptive_edge_and_soft_score[of 0 1 1 defaultControls "[Vec4 0 0 0 0]" "[Vec4 1 1 1 1]"
      "[Vec4 0 0 0 0]", unfolded Let_def] k hi
  have one: "r_of (snd (snd (bgSubPass defaultControls 1 1
                     [Vec4 1 1 1 1] [Vec4 0 0 0 0] [Vec4 0 0 0 0] ! 0))) = 1"
    by blast
  from C7_adaptive_edge_and_soft_score[of 0 1 1 ?lum "[Vec4 0 0 0 0]" "[Vec4 (1/15) (1/15) (1/15) 1]"
      "[Vec4 0 0 0 0]", unfolded Let_def] k lo
  have zero: "r_of (snd (snd (bgSubPass ?lum 1 1 [Vec4 (1/15) (1/15) (1/15) 1]
                     [Vec4 0 0 0 0] [Vec4 0 0 0 0] ! 0))) = 0"
    by blast
  from one zero show ?thesis by (rule conjI)
qed

subsection \<open>The distance in the two paths\<close>

text \<open>
  Claim C6, as stated, at a concrete CPU pixel: pure red over a luminance model with
  mean 0 and variance 64, threshold 10. The CPU distance is the unweighted brightness
  \<open>(255 + 0 + 0) / 3 = 85\<close>, above the edge \<open>10 \<sqdot> 8 = 80\<close>, so the pixel is foreground;
  the luminance of the claim is \<open>0.299 \<sqdot> 255 = 76.245\<close>, below the edge.
\<close>

theorem C6_counterexample:
  "isForeground (defaultControls\<lparr>detectionMode := Luminance, detectionThreshold := 10\<rparr>)
       [255, 0, 0, 255] [0] [64] 0 0
   \<and> \<not> (\<bar>luma (num 255) (num 0) (num 0) - 0\<bar> > 10 * sqrt (max 64 25))"
  by (simp add: isForeground_def currentBrightness_def defaultControls_def Let_def num_def
      luma_def sqrt_64)

text \<open>
  Claim C6, amended. In luminance mode the GPU distance is \<open>|luma(current) - mean.r|\<close>
  with \<open>luma = 0.299 R + 0.587 G + 0.114 B\<close>, and the CPU distance is
  \<open>|(R + G + B) / 3 - mean|\<close>, the unweighted brightness; in colour mode the distance is
  the Euclidean distance between the current colour and the mean colour in both paths.
\<close>

theorem C6_distance_metric:
  "bgsub_dist False current mean
     = \<bar>luma (r_of current) (g_of current) (b_of current) - r_of mean\<bar>
   \<and> bgsub_dist True current mean
     = sqrt ((r_of current - r_of mean)\<^sup>2 + (g_of current - g_of mean)\<^sup>2
             + (b_of current - b_of mean)\<^sup>2)
   \<and> (detectionMode controls = Luminance \<longrightarrow>
        (isForeground controls cur meanData varianceData i j \<longleftrightarrow>
          \<bar>(num (cur ! i) + num (cur ! (i + 1)) + num (cur ! (i + 2))) / 3 - meanData ! j\<bar>
            > detectionThreshold controls * sqrt (max (varianceData ! j) 25)))
   \<and> (detectionMode controls = Color \<longrightarrow>
        (isForeground controls cur meanData varianceData i j \<longleftrightarrow>
          sqrt ((num (cur ! i) - meanData ! (j * 3))\<^sup>2
                + (num (cur ! (i + 1)) - meanData ! (j * 3 + 1))\<^sup>2
                + (num (cur ! (i + 2)) - meanData ! (j * 3 + 2))\<^sup>2)
            > detectionThreshold controls * sqrt (max (varianceData ! j) 25)))"
proof -
  have a: "bgsub_dist False current mean
     = \<bar>luma (r_of current) (g_of current) (b_of current) - r_of mean\<bar>"
    by (simp add: bgsub_dist_def curLum_def dot3_def luma_def mult.commute)
  have b: "bgsub_dist True current mean
     = sqrt ((r_of current - r_of mean)\<^sup>2 + (g_of current - g_of mean)\<^sup>2
             + (b_of current - b_of mean)\<^sup>2)"
    by (simp add: bgsub_dist_def length3_def power2_eq_square)
  from a b isForeground_luminance[of controls cur meanData varianceData i j]
    isForeground_color[of controls cur meanData varianceData i j]
  show ?thesis by blast
qed

text \<open>
  The mode hypotheses at the pixel of the counterexample (luminance) and at a white
  pixel under the default controls (colour).
\<close>

theorem C6_witness:
  "(isForeground (defaultControls\<lparr>detectionMode := Luminance, detectionThreshold := 10\<rparr>)
       [255, 0, 0, 255] [0] [64] 0 0 \<longleftrightarrow> \<bar>(255 + 0 + 0) / 3 - 0\<bar> > (10::real) * 8)
   \<and> (isForeground defaultControls [255, 255, 255, 255] [0, 0, 0] [100] 0 0
        \<longleftrightarrow> sqrt (255\<^sup>2 + 255\<^sup>2 + 255\<^sup>2) > (15::real) * 10)"
proof -
  let ?lum = "defaultControls\<lparr>detectionMode := Luminance, detectionThreshold := 10\<rparr>"
  have l: "detectionMode ?lum = Luminance" by (simp add: defaultControls_def)
  have c: "detectionMode defaultControls = Color" by (simp add: defaultControls_def)
  from C6_distance_metric[of _ _ ?lum "[255, 0, 0, 255]" "[0]" "[64]" 0 0] l
  have "isForeground ?lum [255, 0, 0, 255] [0] [64] 0 0 \<longleftrightarrow>
          \<bar>(num ([255, 0, 0, 255] ! 0) + num ([255, 0, 0, 255] ! (0 + 1))
             + num ([255, 0, 0, 255] ! (0 + 2))) / 3 - [0] ! 0\<bar>
            > detectionThreshold ?lum * sqrt (max ([64] ! 0) 25)"
    by blast
  then have one: "isForeground ?lum [255, 0, 0, 255] [0] [64] 0 0
                    \<longleftrightarrow> \<bar>(255 + 0 + 0) / 3 - 0\<bar> > (10::real) * 8"
    by (simp add: num_def sqrt_64 defaultControls_def)
  from C6_distance_metric[of _ _ defaultControls "[255, 255, 255, 255]" "[0, 0, 0]" "[100]" 0 0] c
  have "isForeground defaultControls [255, 255, 255, 255] [0, 0, 0] [100] 0 0 \<longleftrightarrow>
          sqrt ((num ([255, 255, 255, 255] ! 0) - [0, 0, 0] ! (0 * 3))\<^sup>2
                + (num ([255, 255, 255, 255] ! (0 + 1)) - [0, 0, 0] ! (0 * 3 + 1))\<^sup>2
                + (num ([255, 255, 255, 255] ! (0 + 2)) - [0, 0, 0] ! (0 * 3 + 2))\<^sup>2)
            > detectionThreshold defaultControls * sqrt (max ([100] ! 0) 25)"
    by blast
  then have two: "isForeground defaultControls [255, 255, 255, 255] [0, 0, 0] [100] 0 0
        \<longleftrightarrow> sqrt (255\<^sup>2 + 255\<^sup>2 + 255\<^sup>2) > (15::real) * 10"
    by (simp add: num_def sqrt_100 defaultControls_def)
  from one two show ?thesis by (rule conjI)
qed


subsection \<open>Lifecycle\<close>

text \<open>
  Claim C9. While \<open>isInitialized\<close> is false, as it is until \<open>init\<close> has run, \<open>render\<close>
  returns at once and the engine (textures, canvas, blend state, ping-pong index) is as
  it was.
\<close>

theorem C9_render_before_init_is_noop:
  "\<not> isInitialized s \<Longrightarrow> render fx video controls s = Inr s"
  by (simp add: render_def)

theorem C9_witness:
  "render (\<lambda>_ _ _ _ _ _ _ _. (0, 0, 0)) [Vec4 1 1 1 1] defaultControls (newMotionEngine 1)
     = Inr (newMotionEngine 1)"
proof -
  have "\<not> isInitialized (newMotionEngine 1)"
    by (simp add: newMotionEngine_def)
  then show ?thesis
    by (rule C9_render_before_init_is_noop)
qed

subsection \<open>Seeding the background model\<close>

lemma seed_color_nth:
  "i = 4 * j0 \<Longrightarrow> length cur = 4 * n \<Longrightarrow> length mean = 3 * n \<Longrightarrow> j < n \<Longrightarrow> c < 3 \<Longrightarrow>
   seed_color cur i j0 mean ! (j * 3 + c)
     = (if j0 \<le> j then num (cur ! (4 * j + c)) else mean ! (j * 3 + c))"
proof (induction cur i j0 mean rule: seed_color.induct)
  case (1 cur i j0 mean)
  show ?case
  proof (cases "i < length cur")
    case False
    with "1.prems" have "\<not> j0 \<le> j" by simp
    with False show ?thesis by simp
  next
    case True
    let ?mean1 = "mean[j0 * 3 := num (cur ! i), j0 * 3 + 1 := num (cur ! (i + 1)),
                       j0 * 3 + 2 := num (cur ! (i + 2))]"
    from True "1.prems" have j0: "j0 < n" by simp
    have step: "seed_color cur i j0 mean = seed_color cur (i + 4) (j0 + 1) ?mean1"
      using True by (simp del: seed_color.simps add: seed_color.simps[of cur i j0 mean])
    have ih: "seed_color cur (i + 4) (j0 + 1) ?mean1 ! (j * 3 + c)
       = (if j0 + 1 \<le> j then num (cur ! (4 * j + c)) else ?mean1 ! (j * 3 + c))"
      using "1.IH"[OF True] "1.prems" by simp
    show ?thesis
    proof (cases "j = j0")
      case True
      have "c = 0 \<or> c = 1 \<or> c = 2" using "1.prems"(5) by arith
      then have "?mean1 ! (j0 * 3 + c) = num (cur ! (4 * j0 + c))"
        using j0 "1.prems"(1,3) by auto
      with True show ?thesis using step ih by simp
    next
      case False
      have ne: "j0 * 3 \<noteq> j * 3 + c" "j0 * 3 + 1 \<noteq> j * 3 + c" "j0 * 3 + 2 \<noteq> j * 3 + c"
        using False "1.prems"(5) by presburger+
      then have "?mean1 ! (j * 3 + c) = mean ! (j * 3 + c)" by simp
      with False show ?thesis using step ih by auto
    qed
  qed
qed

lemma seed_luminance_nth:
  "i = 4 * j0 \<Longrightarrow> length cur = 4 * n \<Longrightarrow> length mean = n \<Longrightarrow> j < n \<Longrightarrow>
   seed_luminance cur i j0 mean ! j
     = (if j0 \<le> j then currentBrightness cur (4 * j) else mean ! j)"
proof (induction cur i j0 mean rule: seed_luminance.induct)
  case (1 cur i j0 mean)
  show ?case
  proof (cases "i < length cur")
    case False
    with "1.prems" have "\<not> j0 \<le> j" by simp
    with False show ?thesis by simp
  next
    case True
    let ?mean1 = "mean[j0 := currentBrightness cur i]"
    from True "1.prems" have j0: "j0 < n" by simp
    have step: "seed_luminance cur i j0 mean = seed_luminance cur (i + 4) (j0 + 1) ?mean1"
      using True
      by (simp del: seed_luminance.simps
          add: seed_luminance.simps[of cur i j0 mean] currentBrightness_def Let_def)
    have ih: "seed_luminance cur (i + 4) (j0 + 1) ?mean1 ! j
       = (if j0 + 1 \<le> j then currentBrightness cur (4 * j) else ?mean1 ! j)"
      using "1.IH"[OF True] "1.prems" by (simp add: currentBrightness_def Let_def)
    show ?thesis
      using step ih j0 "1.prems"(1,3) by (cases "j = j0") auto
  qed
qed

text \<open>
  The CPU path seeds as the specification says: the mean cells of every pixel hold the
  first frame's value at that pixel (its colour, or its brightness in luminance mode)
  and the variance cell holds 100.
\<close>

lemma cpu_seedModel_at:
  assumes "length cur = 4 * (pw * ph)" and "j < pw * ph"
  shows "model_at (detectionMode controls) (bm_mean (seedModel controls cur pw ph))
           (bm_variance (seedModel controls cur pw ph)) j
         = ((if detectionMode controls = Color
             then [num (cur ! (4 * j)), num (cur ! (4 * j + 1)), num (cur ! (4 * j + 2))]
             else [(num (cur ! (4 * j)) + num (cur ! (4 * j + 1)) + num (cur ! (4 * j + 2))) / 3]),
            100)"
proof (cases "detectionMode controls")
  case Color
  have "seed_color cur 0 0 (replicate (pw * ph * 3) 0) ! (j * 3 + c) = num (cur ! (4 * j + c))"
    if "c < 3" for c
    using seed_color_nth[of 0 0 cur "pw * ph" "replicate (pw * ph * 3) 0" j c] assms that
    by (simp add: mult.commute)
  from this[of 0] this[of 1] this[of 2] Color assms(2) show ?thesis
    by (simp add: model_at_def seedModel_def Let_def)
next
  case Luminance
  have "seed_luminance cur 0 0 (replicate (pw * ph) 0) ! j = currentBrightness cur (4 * j)"
    using seed_luminance_nth[of 0 0 cur "pw * ph" "replicate (pw * ph) 0" j] assms by simp
  with Luminance assms(2) show ?thesis
    by (simp add: model_at_def seedModel_def Let_def currentBrightness_def)
qed

text \<open>
  Claim C2. The model is meant to start at the first observed frame with variance 100.
  In the GPU path \<open>createTexturesAndFBOs\<close> allocates the mean and variance textures
  with no pixel source, so every texel is zero, and no later step seeds them: on a
  \<open>1 \<times> 1\<close> engine with the default controls, after the first frame (a white pixel)
  has been rendered the mean and variance read by the next tick are still zero, not
  the frame's \<open>(1, 1, 1)\<close> and not 100.
\<close>

theorem C2_gpu_model_starts_at_zero:
  "tex_mean (createTexturesAndFBOs 1 1) = ([Vec4 0 0 0 0], [Vec4 0 0 0 0])
   \<and> tex_variance (createTexturesAndFBOs 1 1) = ([Vec4 0 0 0 0], [Vec4 0 0 0 0])
   \<and> (\<exists>s' t'. render fx [Vec4 1 1 1 1] defaultControls (init 1 1 (newMotionEngine 1)) = Inr s'
         \<and> textures s' = Some t'
         \<and> rgb (pp_get (tex_mean t') (pingPongIndex s') ! 0) = (0, 0, 0)
         \<and> rgb (pp_get (tex_variance t') (pingPongIndex s') ! 0) = (0, 0, 0))"
proof -
  let ?s = "init 1 1 (newMotionEngine 1)"
  let ?t = "createTexturesAndFBOs 1 1"
  have a: "tex_mean ?t = ([Vec4 0 0 0 0], [Vec4 0 0 0 0])"
          "tex_variance ?t = ([Vec4 0 0 0 0], [Vec4 0 0 0 0])"
    by (simp_all add: createTexturesAndFBOs_def createTex_def)
  have i: "isInitialized ?s" "textures ?s = Some ?t" "0 < width ?s * height ?s"
          "pingPongIndex ?s = 0"
    by (simp_all add: init_def newMotionEngine_def)
  have sc: "bgsub_soft (detectionThreshold defaultControls / 10)
              (detectionMode defaultControls = Color) 0.05
              ([Vec4 1 1 1 1] ! 0) (pp_get (tex_mean ?t) (pingPongIndex ?s) ! 0)
              (pp_get (tex_variance ?t) (pingPongIndex ?s) ! 0) = 1"
    using white_on_fresh_model_scores_one
    by (simp add: init_def newMotionEngine_def createTexturesAndFBOs_def createTex_def
        pp_get_def defaultControls_def)
  from gpu_score_one_tick[OF i(1,2,3) sc, of fx]
  obtain s' t' where
    "render fx [Vec4 1 1 1 1] defaultControls ?s = Inr s'" "textures s' = Some t'"
    "rgb (pp_get (tex_mean t') (pingPongIndex s') ! 0) = rgb (pp_get (tex_mean ?t) (pingPongIndex ?s) ! 0)"
    "rgb (pp_get (tex_variance t') (pingPongIndex s') ! 0) = rgb (pp_get (tex_variance ?t) (pingPongIndex ?s) ! 0)"
    by blast
  then have "\<exists>s' t'. render fx [Vec4 1 1 1 1] defaultControls ?s = Inr s'
         \<and> textures s' = Some t'
         \<and> rgb (pp_get (tex_mean t') (pingPongIndex s') ! 0) = (0, 0, 0)
         \<and> rgb (pp_get (tex_variance t') (pingPongIndex s') ! 0) = (0, 0, 0)"
    by (auto simp add: init_def newMotionEngine_def createTexturesAndFBOs_def createTex_def
        pp_get_def rgb_def)
  with a show ?thesis by blast
qed


subsection \<open>Morphology on the CPU\<close>

lemma byte_le_255: "(v :: byte) \<le> 255"
proof -
  have "(255 :: byte) = - 1" by simp
  then show ?thesis by (simp only: word_order.extremum)
qed

lemma byte_min_255: "min 255 (v :: byte) = v"
  by (simp add: min_def byte_le_255 antisym)

lemma byte_zero_le: "(0 :: byte) \<le> v"
  by simp

lemma pixel_index_inj:
  "x < w \<Longrightarrow> x' < w \<Longrightarrow> y * w + x = y' * w + x' \<longleftrightarrow> y = y' \<and> x = (x' :: nat)"
proof
  assume a: "x < w" "x' < w" "y * w + x = y' * w + x'"
  then have "(y * w + x) div w = (y' * w + x') div w" "(y * w + x) mod w = (y' * w + x') mod w"
    by simp_all
  with a(1,2) show "y = y' \<and> x = x'" by simp
qed simp

lemma pixel_index_less: "x < w \<Longrightarrow> y < h \<Longrightarrow> y * w + x < w * (h :: nat)"
proof -
  assume a: "x < w" "y < h"
  then have "y * w + x < y * w + w" by simp
  also have "\<dots> = (y + 1) * w" by simp
  also have "\<dots> \<le> h * w" using a(2) by (intro mult_le_mono1) simp
  finally show ?thesis by (simp add: mult.commute)
qed

lemma setPixel_length: "length (setPixel data x y w v) = length data"
  by (simp add: setPixel_def Let_def)

lemma setPixel_same:
  "(y * w + x) * 4 < length data \<Longrightarrow> setPixel data x y w v ! ((y * w + x) * 4) = v"
  by (simp add: setPixel_def Let_def)

lemma setPixel_other:
  "p \<noteq> y * w + x \<Longrightarrow> setPixel data x y w v ! (p * 4) = data ! (p * 4)"
proof -
  assume "p \<noteq> y * w + x"
  then have "(y * w + x) * 4 \<noteq> p * 4" "(y * w + x) * 4 + 1 \<noteq> p * 4"
    "(y * w + x) * 4 + 2 \<noteq> p * 4" "(y * w + x) * 4 + 3 \<noteq> p * 4"
    by presburger+
  then show ?thesis by (simp add: setPixel_def Let_def)
qed

lemma raster_row_length:
  "length (fold (\<lambda>x out. setPixel out x y w (f x)) [0..<n] out) = length out"
  by (induction n) (simp_all add: setPixel_length)

lemma raster_row_nth:
  assumes "length out = 4 * (w * h)" and "y < h" and "n \<le> w" and "x' < w" and "y' < h"
  shows "fold (\<lambda>x out. setPixel out x y w (f x)) [0..<n] out ! ((y' * w + x') * 4)
           = (if y' = y \<and> x' < n then f x' else out ! ((y' * w + x') * 4))"
  using assms(3)
proof (induction n)
  case 0
  show ?case by simp
next
  case (Suc n)
  let ?o = "fold (\<lambda>x out. setPixel out x y w (f x)) [0..<n] out"
  have n: "n < w" using Suc.prems by simp
  have ih: "?o ! ((y' * w + x') * 4) = (if y' = y \<and> x' < n then f x' else out ! ((y' * w + x') * 4))"
    using Suc by simp
  have len: "(y * w + n) * 4 < length ?o"
    using pixel_index_less[OF n assms(2)] assms(1) by (simp add: raster_row_length)
  have unf: "fold (\<lambda>x out. setPixel out x y w (f x)) [0..<Suc n] out = setPixel ?o n y w (f n)"
    by simp
  show ?case
  proof (cases "y' * w + x' = y * w + n")
    case True
    then have eq: "y' = y \<and> x' = n" using pixel_index_inj[OF assms(4) n] by simp
    have "setPixel ?o n y w (f n) ! ((y * w + n) * 4) = f n"
      using len by (rule setPixel_same)
    with eq show ?thesis unfolding unf by simp
  next
    case False
    then have ne: "\<not> (y' = y \<and> x' = n)" by auto
    have "setPixel ?o n y w (f n) ! ((y' * w + x') * 4) = ?o ! ((y' * w + x') * 4)"
      using False by (rule setPixel_other)
    with ne ih show ?thesis unfolding unf by (auto simp add: less_Suc_eq)
  qed
qed

lemma raster_length:
  "length (fold (\<lambda>y out. fold (\<lambda>x out. setPixel out x y w (f x y)) [0..<w] out) [0..<m] out)
     = length out"
  by (induction m) (simp_all add: raster_row_length)

lemma raster_nth:
  assumes "length out = 4 * (w * h)" and "m \<le> h" and "x' < w" and "y' < h"
  shows "fold (\<lambda>y out. fold (\<lambda>x out. setPixel out x y w (f x y)) [0..<w] out) [0..<m] out
             ! ((y' * w + x') * 4)
           = (if y' < m then f x' y' else out ! ((y' * w + x') * 4))"
  using assms(2)
proof (induction m)
  case 0
  show ?case by simp
next
  case (Suc m)
  let ?o = "fold (\<lambda>y out. fold (\<lambda>x out. setPixel out x y w (f x y)) [0..<w] out) [0..<m] out"
  have m: "m < h" using Suc.prems by simp
  have len: "length ?o = 4 * (w * h)" using assms(1) by (simp add: raster_length)
  have ih: "?o ! ((y' * w + x') * 4) = (if y' < m then f x' y' else out ! ((y' * w + x') * 4))"
    using Suc by simp
  have "fold (\<lambda>x out. setPixel out x m w (f x m)) [0..<w] ?o ! ((y' * w + x') * 4)
           = (if y' = m \<and> x' < w then f x' m else ?o ! ((y' * w + x') * 4))"
    using raster_row_nth[OF len m le_refl assms(3,4), of "\<lambda>x. f x m"] .
  then show ?case using ih assms(3) by auto
qed


lemma getPixel_in:
  "x < w \<Longrightarrow> y < h \<Longrightarrow> getPixel data (int x) (int y) w h = data ! ((y * w + x) * 4)"
  by (simp add: getPixel_def nat_add_distrib nat_mult_distrib)

lemma getPixel_index:
  "p < w * h \<Longrightarrow> getPixel data (int (p mod w)) (int (p div w)) w h = data ! (p * 4)"
proof -
  assume p: "p < w * h"
  then have w: "0 < w" by (cases w) auto
  from p have "p div w < h" by (simp add: less_mult_imp_div_less mult.commute)
  moreover have "p mod w < w" using w by simp
  ultimately have "getPixel data (int (p mod w)) (int (p div w)) w h
      = data ! ((p div w * w + p mod w) * 4)"
    by (simp add: getPixel_in)
  then show ?thesis by simp
qed

lemma erode_getPixel:
  "length outp = 4 * (w * h) \<Longrightarrow> x < w \<Longrightarrow> y < h \<Longrightarrow>
   getPixel (erode w h input outp) (int x) (int y) w h = erode_min input w h x y"
  using raster_nth[of outp w h h x y "erode_min input w h"]
  by (simp add: getPixel_in erode_def)

lemma dilate_getPixel:
  "length outp = 4 * (w * h) \<Longrightarrow> x < w \<Longrightarrow> y < h \<Longrightarrow>
   getPixel (dilate w h input outp) (int x) (int y) w h = dilate_max input w h x y"
  using raster_nth[of outp w h h x y "dilate_max input w h"]
  by (simp add: getPixel_in dilate_def)

lemma erode_length: "length (erode w h input outp) = length outp"
  by (simp add: erode_def raster_length)

lemma dilate_length: "length (dilate w h input outp) = length outp"
  by (simp add: dilate_def raster_length)

lemma offsets3_list: "set [(i, j). j \<leftarrow> [-1, 0, 1], i \<leftarrow> [-1, 0, 1 :: int]] = offsets3"
  by (simp add: offsets3_def) blast

lemma offsets3_finite: "finite offsets3" "offsets3 \<noteq> {}"
  by (simp_all add: offsets3_def)

lemma offsets3_swap: "(\<lambda>(j, i). (i, j)) ` offsets3 = offsets3"
  by (auto simp add: offsets3_def image_iff)

lemma window_fold_min:
  fixes g :: "int \<Rightarrow> int \<Rightarrow> 'a :: linorder"
  shows "fold (\<lambda>j m. fold (\<lambda>i m. min m (g i j)) [-1, 0, 1] m) [-1, 0, 1] a
           = Min (insert a ((\<lambda>(i, j). g i j) ` offsets3))"
proof -
  let ?L = "[(i, j). j \<leftarrow> [-1, 0, 1], i \<leftarrow> [-1, 0, 1 :: int]]"
  have flip: "(\<lambda>v m. min m v) = (min :: 'a \<Rightarrow> 'a \<Rightarrow> 'a)"
    by (intro ext) (rule min.commute)
  have "fold (\<lambda>j m. fold (\<lambda>i m. min m (g i j)) [-1, 0, 1] m) [-1, 0, 1] a
          = fold (\<lambda>v m. min m v) (map (\<lambda>(i, j). g i j) ?L) a"
    by (simp only: fold_simps list.map concat.simps append.simps map_append id_apply o_apply
        case_prod_conv)
  also have "\<dots> = Min (set (a # map (\<lambda>(i, j). g i j) ?L))"
    by (simp only: flip Min.set_eq_fold)
  also have "\<dots> = Min (insert a ((\<lambda>(i, j). g i j) ` offsets3))"
    by (simp only: list.set set_map offsets3_list)
  finally show ?thesis .
qed

lemma window_fold_max:
  fixes g :: "int \<Rightarrow> int \<Rightarrow> 'a :: linorder"
  shows "fold (\<lambda>j m. fold (\<lambda>i m. max m (g i j)) [-1, 0, 1] m) [-1, 0, 1] a
           = Max (insert a ((\<lambda>(i, j). g i j) ` offsets3))"
proof -
  let ?L = "[(i, j). j \<leftarrow> [-1, 0, 1], i \<leftarrow> [-1, 0, 1 :: int]]"
  have flip: "(\<lambda>v m. max m v) = (max :: 'a \<Rightarrow> 'a \<Rightarrow> 'a)"
    by (intro ext) (rule max.commute)
  have "fold (\<lambda>j m. fold (\<lambda>i m. max m (g i j)) [-1, 0, 1] m) [-1, 0, 1] a
          = fold (\<lambda>v m. max m v) (map (\<lambda>(i, j). g i j) ?L) a"
    by (simp only: fold_simps list.map concat.simps append.simps map_append id_apply o_apply
        case_prod_conv)
  also have "\<dots> = Max (set (a # map (\<lambda>(i, j). g i j) ?L))"
    by (simp only: flip Max.set_eq_fold)
  also have "\<dots> = Max (insert a ((\<lambda>(i, j). g i j) ` offsets3))"
    by (simp only: list.set set_map offsets3_list)
  finally show ?thesis .
qed

lemma window_swap:
  "(\<lambda>(j, i). g i j) ` offsets3 = (\<lambda>(i, j). g i j) ` offsets3"
proof -
  have "(\<lambda>(j, i). g i j) ` offsets3 = (\<lambda>(i, j). g i j) ` ((\<lambda>(j, i). (i, j)) ` offsets3)"
    by (auto simp add: image_iff)
  then show ?thesis by (simp only: offsets3_swap)
qed


lemma erode_min_Min:
  "erode_min input w h x y
     = Min ((\<lambda>(i, j). getPixel input (int x + i) (int y + j) w h) ` offsets3)"
proof -
  let ?A = "(\<lambda>(i, j). getPixel input (int x + i) (int y + j) w h) ` offsets3"
  have "erode_min input w h x y = Min (insert 255 ?A)"
    unfolding erode_min_def by (rule window_fold_min)
  also have "\<dots> = min 255 (Min ?A)"
    using offsets3_finite by (intro Min_insert) simp_all
  finally show ?thesis by (simp only: byte_min_255)
qed

lemma dilate_max_Max:
  "dilate_max input w h x y
     = Max ((\<lambda>(i, j). getPixel input (int x + i) (int y + j) w h) ` offsets3)"
proof -
  let ?A = "(\<lambda>(i, j). getPixel input (int x + i) (int y + j) w h) ` offsets3"
  have "dilate_max input w h x y = Max (insert 0 ?A)"
    unfolding dilate_max_def by (rule window_fold_max)
  also have "\<dots> = max 0 (Max ?A)"
    using offsets3_finite by (intro Max_insert) simp_all
  finally show ?thesis by (simp add: max_def)
qed


lemma cpu_erode_is_min:
  "length outp = 4 * (w * h) \<Longrightarrow> x < w \<Longrightarrow> y < h \<Longrightarrow>
   getPixel (erode w h input outp) (int x) (int y) w h
     = Min ((\<lambda>(i, j). getPixel input (int x + i) (int y + j) w h) ` offsets3)"
  by (simp only: erode_getPixel erode_min_Min)

lemma cpu_dilate_is_max:
  "length outp = 4 * (w * h) \<Longrightarrow> x < w \<Longrightarrow> y < h \<Longrightarrow>
   getPixel (dilate w h input outp) (int x) (int y) w h
     = Max ((\<lambda>(i, j). getPixel input (int x + i) (int y + j) w h) ` offsets3)"
  by (simp only: dilate_getPixel dilate_max_Max)

lemma offsets3_neg: "(i, j) \<in> offsets3 \<Longrightarrow> (- i, - j) \<in> offsets3"
  by (auto simp add: offsets3_def)

lemma getPixel_out:
  "x < 0 \<or> int w \<le> x \<or> y < 0 \<or> int h \<le> y \<Longrightarrow> getPixel data x y w h = 0"
  by (auto simp add: getPixel_def)

lemma in_bounds_nat:
  "\<not> (x < 0 \<or> int w \<le> x \<or> y < 0 \<or> int h \<le> y) \<Longrightarrow>
   \<exists>x2 y2. x = int x2 \<and> y = int y2 \<and> x2 < w \<and> y2 < h"
  by (rule exI[of _ "nat x"], rule exI[of _ "nat y"]) auto

lemma cpu_open_le:
  assumes len: "length data = 4 * (w * h)" and x: "x < w" and y: "y < h"
  shows "getPixel (applyMorphology data w h MorphOpen) (int x) (int y) w h
           \<le> getPixel data (int x) (int y) w h"
proof -
  let ?buf = "replicate (length data) (0 :: byte)"
  let ?E = "erode w h data ?buf"
  let ?A = "(\<lambda>(i, j). getPixel ?E (int x + i) (int y + j) w h) ` offsets3"
  have lb: "length ?buf = 4 * (w * h)" using len by simp
  have "getPixel (applyMorphology data w h MorphOpen) (int x) (int y) w h = Max ?A"
    using cpu_dilate_is_max[OF len x y, of ?E] by (simp add: applyMorphology_def)
  moreover have "Max ?A \<le> getPixel data (int x) (int y) w h"
  proof (rule Max.boundedI)
    show "finite ?A" using offsets3_finite by simp
    show "?A \<noteq> {}" using offsets3_finite by simp
    fix a assume "a \<in> ?A"
    then obtain i j where ij: "(i, j) \<in> offsets3"
      and a: "a = getPixel ?E (int x + i) (int y + j) w h" by auto
    show "a \<le> getPixel data (int x) (int y) w h"
    proof (cases "int x + i < 0 \<or> int w \<le> int x + i \<or> int y + j < 0 \<or> int h \<le> int y + j")
      case True
      then have "a = 0" unfolding a by (rule getPixel_out)
      then show ?thesis by simp
    next
      case False
      from in_bounds_nat[OF False] obtain x2 y2 where
        q: "int x + i = int x2" "int y + j = int y2" "x2 < w" "y2 < h" by blast
      let ?B = "(\<lambda>(i', j'). getPixel data (int x2 + i') (int y2 + j') w h) ` offsets3"
      have "a = Min ?B"
        unfolding a q(1,2) using cpu_erode_is_min[OF lb q(3,4), of data] .
      moreover have "getPixel data (int x) (int y) w h \<in> ?B"
      proof -
        have "int x2 + (- i) = int x" "int y2 + (- j) = int y"
          using q(1,2) by simp_all
        then have "getPixel data (int x2 + (- i)) (int y2 + (- j)) w h = getPixel data (int x) (int y) w h"
          by (simp only:)
        then show ?thesis using offsets3_neg[OF ij] by (metis (no_types, lifting) case_prod_conv image_eqI)
      qed
      ultimately show ?thesis using offsets3_finite by simp
    qed
  qed
  ultimately show ?thesis by simp
qed


lemma cpu_close_ge_interior:
  assumes len: "length data = 4 * (w * h)"
    and x: "0 < x" "x + 1 < w" and y: "0 < y" "y + 1 < h"
  shows "getPixel data (int x) (int y) w h
           \<le> getPixel (applyMorphology data w h MorphClose) (int x) (int y) w h"
proof -
  let ?buf = "replicate (length data) (0 :: byte)"
  let ?D = "dilate w h data ?buf"
  let ?A = "(\<lambda>(i, j). getPixel ?D (int x + i) (int y + j) w h) ` offsets3"
  have lb: "length ?buf = 4 * (w * h)" using len by simp
  have xw: "x < w" and yh: "y < h" using x y by simp_all
  have "getPixel (applyMorphology data w h MorphClose) (int x) (int y) w h = Min ?A"
    using cpu_erode_is_min[OF len xw yh, of ?D] by (simp add: applyMorphology_def)
  moreover have "getPixel data (int x) (int y) w h \<le> Min ?A"
  proof (rule Min.boundedI)
    show "finite ?A" using offsets3_finite by simp
    show "?A \<noteq> {}" using offsets3_finite by simp
    fix a assume "a \<in> ?A"
    then obtain i j where ij: "(i, j) \<in> offsets3"
      and a: "a = getPixel ?D (int x + i) (int y + j) w h" by auto
    from ij have "\<not> (int x + i < 0 \<or> int w \<le> int x + i \<or> int y + j < 0 \<or> int h \<le> int y + j)"
      using x y by (auto simp add: offsets3_def)
    from in_bounds_nat[OF this] obtain x2 y2 where
      q: "int x + i = int x2" "int y + j = int y2" "x2 < w" "y2 < h" by blast
    let ?B = "(\<lambda>(i', j'). getPixel data (int x2 + i') (int y2 + j') w h) ` offsets3"
    have "a = Max ?B"
      unfolding a q(1,2) using cpu_dilate_is_max[OF lb q(3,4), of data] .
    moreover have "getPixel data (int x) (int y) w h \<in> ?B"
    proof -
      have "int x2 + (- i) = int x" "int y2 + (- j) = int y"
        using q(1,2) by simp_all
      then have "getPixel data (int x2 + (- i)) (int y2 + (- j)) w h = getPixel data (int x) (int y) w h"
        by (simp only:)
      then show ?thesis using offsets3_neg[OF ij] by (metis (no_types, lifting) case_prod_conv image_eqI)
    qed
    ultimately show "getPixel data (int x) (int y) w h \<le> a" using offsets3_finite by simp
  qed
  ultimately show ?thesis by simp
qed

lemma cpu_close_border:
  assumes len: "length data = 4 * (w * h)" and xw: "x < w" and yh: "y < h"
    and b: "\<not> (0 < x \<and> x + 1 < w \<and> 0 < y \<and> y + 1 < h)"
  shows "getPixel (applyMorphology data w h MorphClose) (int x) (int y) w h = 0"
proof -
  let ?buf = "replicate (length data) (0 :: byte)"
  let ?D = "dilate w h data ?buf"
  let ?A = "(\<lambda>(i, j). getPixel ?D (int x + i) (int y + j) w h) ` offsets3"
  have eq: "getPixel (applyMorphology data w h MorphClose) (int x) (int y) w h = Min ?A"
    using cpu_erode_is_min[OF len xw yh, of ?D] by (simp add: applyMorphology_def)
  from b xw yh obtain i j where ij: "(i, j) \<in> offsets3"
    and out: "int x + i < 0 \<or> int w \<le> int x + i \<or> int y + j < 0 \<or> int h \<le> int y + j"
  proof -
    consider "x = 0" | "x + 1 = w" | "y = 0" | "y + 1 = h" using b xw yh by linarith
    then show ?thesis
    proof cases
      case 1 then show ?thesis using that[of "-1" 0] by (simp add: offsets3_def)
    next
      case 2 then show ?thesis using that[of 1 0] by (auto simp add: offsets3_def)
    next
      case 3 then show ?thesis using that[of 0 "-1"] by (simp add: offsets3_def)
    next
      case 4 then show ?thesis using that[of 0 1] by (auto simp add: offsets3_def)
    qed
  qed
  have "getPixel ?D (int x + i) (int y + j) w h = 0" using out by (rule getPixel_out)
  then have "0 \<in> ?A" using ij by (metis (no_types, lifting) case_prod_conv image_eqI)
  then have "Min ?A \<le> 0" using offsets3_finite by (intro Min_le) simp_all
  then show ?thesis unfolding eq by simp
qed


lemma filter_count_mono:
  "(\<And>x. x \<in> set xs \<Longrightarrow> P x \<Longrightarrow> Q x) \<Longrightarrow> length (filter P xs) \<le> length (filter Q xs)"
  by (induction xs) auto

lemma index_coords: "p < w * h \<Longrightarrow> p mod w < w \<and> p div w < (h :: nat)"
proof -
  assume p: "p < w * h"
  then have "0 < w" by (cases w) auto
  moreover from p have "p div w < h" by (simp add: less_mult_imp_div_less mult.commute)
  ultimately show ?thesis by simp
qed

lemma cpu_open_count:
  assumes "length data = 4 * (w * h)"
  shows "foregroundCount (applyMorphology data w h MorphOpen) w h \<le> foregroundCount data w h"
  unfolding foregroundCount_def
proof (rule filter_count_mono)
  fix p assume "p \<in> set [0..<w * h]"
    and nz: "applyMorphology data w h MorphOpen ! (p * 4) \<noteq> 0"
  then have p: "p < w * h" by simp
  from index_coords[OF p] have c: "p mod w < w" "p div w < h" by simp_all
  have "applyMorphology data w h MorphOpen ! (p * 4) \<le> data ! (p * 4)"
    using cpu_open_le[OF assms c] by (simp only: getPixel_index[OF p])
  with nz show "data ! (p * 4) \<noteq> 0" by auto
qed

lemma cpu_close_count:
  assumes "length data = 4 * (w * h)"
  shows "interiorForegroundCount data w h
           \<le> foregroundCount (applyMorphology data w h MorphClose) w h"
  unfolding foregroundCount_def interiorForegroundCount_def
proof (rule filter_count_mono)
  fix p assume "p \<in> set [0..<w * h]" and a: "interior w h p \<and> data ! (p * 4) \<noteq> 0"
  then have p: "p < w * h" by simp
  from a have i: "0 < p mod w" "p mod w + 1 < w" "0 < p div w" "p div w + 1 < h"
    by (simp_all add: interior_def)
  have "data ! (p * 4) \<le> applyMorphology data w h MorphClose ! (p * 4)"
    using cpu_close_ge_interior[OF assms i] by (simp only: getPixel_index[OF p])
  with a show "applyMorphology data w h MorphClose ! (p * 4) \<noteq> 0" by auto
qed

lemma cpu_close_border_index:
  assumes "length data = 4 * (w * h)" and p: "p < w * h" and "\<not> interior w h p"
  shows "applyMorphology data w h MorphClose ! (p * 4) = 0"
proof -
  from index_coords[OF p] have c: "p mod w < w" "p div w < h" by simp_all
  have "\<not> (0 < p mod w \<and> p mod w + 1 < w \<and> 0 < p div w \<and> p div w + 1 < h)"
    using assms(3) by (simp add: interior_def)
  from cpu_close_border[OF assms(1) c this] show ?thesis
    by (simp only: getPixel_index[OF p])
qed


subsection \<open>Morphology on the GPU\<close>

lemma morphPass_length: "length (morphPass u img w h) = w * h"
  by (simp add: morphPass_def drawQuad_def)

lemma morphPass_nth:
  "k < w * h \<Longrightarrow> morphPass u img w h ! k = morphologyFragment u img w h (k mod w) (k div w)"
  by (simp add: morphPass_def drawQuad_def)

lemma clamped_in_window:
  assumes "x < w" and "i \<in> {-1, 0, 1 :: int}"
  shows "nat (clampi (int x + i) 0 (int w - 1)) < w
         \<and> nat (clampi (int x + i) 0 (int w - 1)) \<le> x + 1
         \<and> x \<le> nat (clampi (int x + i) 0 (int w - 1)) + 1"
  using assms by (auto simp add: clampi_def)

lemma window_is_clamped:
  assumes "x < w" and "x' < w" and "x' \<le> x + 1" and "x \<le> x' + 1"
  shows "int x' - int x \<in> {-1, 0, 1 :: int}
         \<and> nat (clampi (int x + (int x' - int x)) 0 (int w - 1)) = x'"
  using assms by (auto simp add: clampi_def)

lemma texture_window:
  assumes x: "x < w" and y: "y < h"
  shows "(\<lambda>(i, j). r_of (texture_at img w h (int x + i) (int y + j))) ` offsets3
           = (\<lambda>(x', y'). r_of (img ! (y' * w + x'))) ` inBoundsNeighbours w h x y"
    (is "?F ` offsets3 = ?G ` ?N")
proof (intro set_eqI iffI)
  fix v assume "v \<in> ?F ` offsets3"
  then obtain p where p: "p \<in> offsets3" "v = ?F p" by blast
  obtain i j where pij: "p = (i, j)" by (cases p)
  from p(1) have ij: "i \<in> {-1, 0, 1}" "j \<in> {-1, 0, 1}"
    unfolding pij offsets3_def by blast+
  from p(2) have v: "v = r_of (texture_at img w h (int x + i) (int y + j))"
    unfolding pij by (simp only: case_prod_conv)
  let ?cx = "nat (clampi (int x + i) 0 (int w - 1))"
  let ?cy = "nat (clampi (int y + j) 0 (int h - 1))"
  have "(?cx, ?cy) \<in> ?N"
    using clamped_in_window[OF x ij(1)] clamped_in_window[OF y ij(2)]
    by (simp add: inBoundsNeighbours_def)
  moreover have "v = ?G (?cx, ?cy)"
    by (simp add: v texture_at_def)
  ultimately show "v \<in> ?G ` ?N" by (rule rev_image_eqI)
next
  fix v assume "v \<in> ?G ` ?N"
  then obtain q where q: "q \<in> ?N" "v = ?G q" by blast
  obtain x' y' where qxy: "q = (x', y')" by (cases q)
  from q(1) have n: "x' < w" "y' < h" "x' \<le> x + 1" "x \<le> x' + 1" "y' \<le> y + 1" "y \<le> y' + 1"
    unfolding qxy inBoundsNeighbours_def by simp_all
  from q(2) have v: "v = r_of (img ! (y' * w + x'))"
    unfolding qxy by (simp only: case_prod_conv)
  let ?i = "int x' - int x" and ?j = "int y' - int y"
  from window_is_clamped[OF x n(1,3,4)] window_is_clamped[OF y n(2,5,6)]
  have ij: "?i \<in> {-1, 0, 1}" "?j \<in> {-1, 0, 1}"
    and c: "nat (clampi (int x + ?i) 0 (int w - 1)) = x'" "nat (clampi (int y + ?j) 0 (int h - 1)) = y'"
    by blast+
  have "(?i, ?j) \<in> offsets3" using ij unfolding offsets3_def by (rule SigmaI)
  moreover have "v = ?F (?i, ?j)"
    unfolding v texture_at_def by (simp only: c case_prod_conv)
  ultimately show "v \<in> ?F ` offsets3" by (rule rev_image_eqI)
qed

lemma inBoundsNeighbours_finite:
  "finite (inBoundsNeighbours w h x y)"
proof -
  have "inBoundsNeighbours w h x y \<subseteq> {..<w} \<times> {..<h}"
    by (auto simp add: inBoundsNeighbours_def)
  then show ?thesis by (rule finite_subset) simp
qed

lemma inBoundsNeighbours_self:
  "x < w \<Longrightarrow> y < h \<Longrightarrow> (x, y) \<in> inBoundsNeighbours w h x y"
  by (simp add: inBoundsNeighbours_def)

lemma inBoundsNeighbours_sym:
  "x < w \<Longrightarrow> y < h \<Longrightarrow> (x', y') \<in> inBoundsNeighbours w h x y \<Longrightarrow>
   (x, y) \<in> inBoundsNeighbours w h x' y'"
  by (simp add: inBoundsNeighbours_def)

lemma inBoundsNeighbours_bounds:
  "(x', y') \<in> inBoundsNeighbours w h x y \<Longrightarrow> x' < w \<and> y' < h"
  by (simp add: inBoundsNeighbours_def)


lemma gpu_erode_is_min:
  assumes x: "x < w" and y: "y < h"
  shows "r_of (morphologyFragment 0 img w h x y)
           = Min ((\<lambda>(x', y'). r_of (img ! (y' * w + x'))) ` inBoundsNeighbours w h x y)"
proof -
  let ?f = "\<lambda>i j. r_of (texture_at img w h (int x + i) (int y + j))"
  let ?a = "r_of (texture_at img w h (int x) (int y))"
  let ?A = "(\<lambda>(i, j). ?f i j) ` offsets3"
  have "r_of (morphologyFragment 0 img w h x y)
          = fold (\<lambda>i m. fold (\<lambda>j m. min m (?f i j)) [-1, 0, 1] m) [-1, 0, 1] ?a"
    by (simp only: morphologyFragment_def Let_def simp_thms if_True vec4.sel)
  also have "\<dots> = Min (insert ?a ((\<lambda>(i, j). ?f j i) ` offsets3))"
    by (rule window_fold_min)
  also have "(\<lambda>(i, j). ?f j i) ` offsets3 = ?A"
    by (rule window_swap)
  also have "insert ?a ?A = ?A"
  proof -
    have "(0, 0) \<in> offsets3" by (simp add: offsets3_def)
    moreover have "?a = (\<lambda>(i, j). ?f i j) (0, 0)"
      by (simp only: case_prod_conv add_0_right)
    ultimately have "?a \<in> ?A" by (rule rev_image_eqI)
    then show ?thesis by (rule insert_absorb)
  qed
  finally show ?thesis by (simp only: texture_window[OF x y])
qed

lemma gpu_dilate_is_max:
  assumes x: "x < w" and y: "y < h" and u: "u \<noteq> 0"
  shows "r_of (morphologyFragment u img w h x y)
           = Max ((\<lambda>(x', y'). r_of (img ! (y' * w + x'))) ` inBoundsNeighbours w h x y)"
proof -
  let ?f = "\<lambda>i j. r_of (texture_at img w h (int x + i) (int y + j))"
  let ?a = "r_of (texture_at img w h (int x) (int y))"
  let ?A = "(\<lambda>(i, j). ?f i j) ` offsets3"
  have "r_of (morphologyFragment u img w h x y)
          = fold (\<lambda>i m. fold (\<lambda>j m. max m (?f i j)) [-1, 0, 1] m) [-1, 0, 1] ?a"
    using u by (simp only: morphologyFragment_def Let_def simp_thms if_False vec4.sel)
  also have "\<dots> = Max (insert ?a ((\<lambda>(i, j). ?f j i) ` offsets3))"
    by (rule window_fold_max)
  also have "(\<lambda>(i, j). ?f j i) ` offsets3 = ?A"
    by (rule window_swap)
  also have "insert ?a ?A = ?A"
  proof -
    have "(0, 0) \<in> offsets3" by (simp add: offsets3_def)
    moreover have "?a = (\<lambda>(i, j). ?f i j) (0, 0)"
      by (simp only: case_prod_conv add_0_right)
    ultimately have "?a \<in> ?A" by (rule rev_image_eqI)
    then show ?thesis by (rule insert_absorb)
  qed
  finally show ?thesis by (simp only: texture_window[OF x y])
qed

lemma morphologyFragment_shape:
  "morphologyFragment u img w h x y
     = (let v = r_of (morphologyFragment u img w h x y) in Vec4 v v v 1)"
  by (simp only: morphologyFragment_def Let_def vec4.sel)


lemma coords_of_index: "x < w \<Longrightarrow> (y * w + x) mod w = x \<and> (y * w + x) div w = (y :: nat)"
  by simp

lemma morphPass_at:
  "x < w \<Longrightarrow> y < h \<Longrightarrow> morphPass u img w h ! (y * w + x) = morphologyFragment u img w h x y"
  using morphPass_nth[of "y * w + x" w h u img] pixel_index_less[of x w y h]
  by (simp only: coords_of_index)

lemma gpu_open_le:
  assumes k: "k < w * h"
  shows "r_of (morphPass 1 (morphPass 0 img w h) w h ! k) \<le> r_of (img ! k)"
proof -
  let ?x = "k mod w" and ?y = "k div w"
  let ?E = "morphPass 0 img w h"
  let ?N = "inBoundsNeighbours w h ?x ?y"
  let ?A = "(\<lambda>(x', y'). r_of (?E ! (y' * w + x'))) ` ?N"
  from index_coords[OF k] have c: "?x < w" "?y < h" by simp_all
  have kk: "?y * w + ?x = k" by simp
  have "r_of (morphPass 1 ?E w h ! k) = Max ?A"
    using gpu_dilate_is_max[OF c, of 1 ?E] by (simp only: morphPass_nth[OF k])
  moreover have "Max ?A \<le> r_of (img ! k)"
  proof (rule Max.boundedI)
    show "finite ?A" using inBoundsNeighbours_finite by simp
    show "?A \<noteq> {}" using inBoundsNeighbours_self[OF c] by blast
    fix a assume "a \<in> ?A"
    then obtain q where q: "q \<in> ?N" "a = (\<lambda>(x', y'). r_of (?E ! (y' * w + x'))) q" by blast
    obtain x' y' where qxy: "q = (x', y')" by (cases q)
    from q(1) have n: "(x', y') \<in> ?N" unfolding qxy .
    from inBoundsNeighbours_bounds[OF n] have b: "x' < w" "y' < h" by simp_all
    let ?B = "(\<lambda>(x2, y2). r_of (img ! (y2 * w + x2))) ` inBoundsNeighbours w h x' y'"
    have "a = r_of (?E ! (y' * w + x'))" using q(2) unfolding qxy by (simp only: case_prod_conv)
    also have "\<dots> = Min ?B"
      using gpu_erode_is_min[OF b, of img] by (simp only: morphPass_at[OF b])
    finally have a: "a = Min ?B" .
    have "(?x, ?y) \<in> inBoundsNeighbours w h x' y'"
      using inBoundsNeighbours_sym[OF c n] .
    then have "r_of (img ! (?y * w + ?x)) \<in> ?B" by (rule rev_image_eqI) simp
    then have "r_of (img ! k) \<in> ?B" by (simp only: kk)
    then show "a \<le> r_of (img ! k)"
      unfolding a using inBoundsNeighbours_finite by (intro Min_le) simp_all
  qed
  ultimately show ?thesis by simp
qed

lemma gpu_close_ge:
  assumes k: "k < w * h"
  shows "r_of (img ! k) \<le> r_of (morphPass 0 (morphPass 1 img w h) w h ! k)"
proof -
  let ?x = "k mod w" and ?y = "k div w"
  let ?D = "morphPass 1 img w h"
  let ?N = "inBoundsNeighbours w h ?x ?y"
  let ?A = "(\<lambda>(x', y'). r_of (?D ! (y' * w + x'))) ` ?N"
  from index_coords[OF k] have c: "?x < w" "?y < h" by simp_all
  have kk: "?y * w + ?x = k" by simp
  have "r_of (morphPass 0 ?D w h ! k) = Min ?A"
    using gpu_erode_is_min[OF c, of ?D] by (simp only: morphPass_nth[OF k])
  moreover have "r_of (img ! k) \<le> Min ?A"
  proof (rule Min.boundedI)
    show "finite ?A" using inBoundsNeighbours_finite by simp
    show "?A \<noteq> {}" using inBoundsNeighbours_self[OF c] by blast
    fix a assume "a \<in> ?A"
    then obtain q where q: "q \<in> ?N" "a = (\<lambda>(x', y'). r_of (?D ! (y' * w + x'))) q" by blast
    obtain x' y' where qxy: "q = (x', y')" by (cases q)
    from q(1) have n: "(x', y') \<in> ?N" unfolding qxy .
    from inBoundsNeighbours_bounds[OF n] have b: "x' < w" "y' < h" by simp_all
    let ?B = "(\<lambda>(x2, y2). r_of (img ! (y2 * w + x2))) ` inBoundsNeighbours w h x' y'"
    have "a = r_of (?D ! (y' * w + x'))" using q(2) unfolding qxy by (simp only: case_prod_conv)
    also have "\<dots> = Max ?B"
      using gpu_dilate_is_max[OF b, of 1 img] by (simp only: morphPass_at[OF b])
    finally have a: "a = Max ?B" .
    have "(?x, ?y) \<in> inBoundsNeighbours w h x' y'"
      using inBoundsNeighbours_sym[OF c n] .
    then have "r_of (img ! (?y * w + ?x)) \<in> ?B" by (rule rev_image_eqI) simp
    then have "r_of (img ! k) \<in> ?B" by (simp only: kk)
    then show "r_of (img ! k) \<le> a"
      unfolding a using inBoundsNeighbours_finite by (intro Max_ge) simp_all
  qed
  ultimately show ?thesis by simp
qed

lemma filter_count_pointwise:
  assumes "length xs = length ys" and "\<And>k. k < length xs \<Longrightarrow> P (xs ! k) \<Longrightarrow> Q (ys ! k)"
  shows "length (filter P xs) \<le> length (filter Q ys)"
proof -
  have "{i. i < length xs \<and> P (xs ! i)} \<subseteq> {i. i < length ys \<and> Q (ys ! i)}"
    using assms by auto
  then have "card {i. i < length xs \<and> P (xs ! i)} \<le> card {i. i < length ys \<and> Q (ys ! i)}"
    by (intro card_mono) simp_all
  then show ?thesis by (simp only: length_filter_conv_card)
qed

lemma gpu_open_count:
  assumes "length img = w * h"
  shows "foregroundCountTex (morphPass 1 (morphPass 0 img w h) w h) \<le> foregroundCountTex img"
  unfolding foregroundCountTex_def
proof (rule filter_count_pointwise)
  show "length (morphPass 1 (morphPass 0 img w h) w h) = length img"
    using assms by (simp add: morphPass_length)
next
  fix k assume "k < length (morphPass 1 (morphPass 0 img w h) w h)"
    and pos: "0 < r_of (morphPass 1 (morphPass 0 img w h) w h ! k)"
  then have "k < w * h" by (simp add: morphPass_length)
  from gpu_open_le[OF this, of img] pos show "0 < r_of (img ! k)" by linarith
qed

lemma gpu_close_count:
  assumes "length img = w * h"
  shows "foregroundCountTex img \<le> foregroundCountTex (morphPass 0 (morphPass 1 img w h) w h)"
  unfolding foregroundCountTex_def
proof (rule filter_count_pointwise)
  show "length img = length (morphPass 0 (morphPass 1 img w h) w h)"
    using assms by (simp add: morphPass_length)
next
  fix k assume "k < length img" and pos: "0 < r_of (img ! k)"
  then have "k < w * h" using assms by simp
  from gpu_close_ge[OF this, of img] pos
  show "0 < r_of (morphPass 0 (morphPass 1 img w h) w h ! k)" by linarith
qed


text \<open>
  The mask that \<open>render\<close> hands to the output pass: the score mask of this tick, put
  through erode then dilate for \<open>open\<close> and dilate then erode for \<open>close\<close>.
\<close>

lemma render_mask:
  assumes "isInitialized s" and "textures s = Some t"
  shows "\<exists>s' t'. render fx video controls s = Inr s' \<and> textures s' = Some t'
     \<and> pp_get (tex_mask t') (pingPongIndex s') =
         (let score = map (snd \<circ> snd) (bgSubPass controls (width s) (height s) video
                 (pp_get (tex_mean t) (pingPongIndex s)) (pp_get (tex_variance t) (pingPongIndex s)))
          in case morphology controls of
               MorphNone \<Rightarrow> score
             | MorphOpen \<Rightarrow> morphPass 1 (morphPass 0 score (width s) (height s)) (width s) (height s)
             | MorphClose \<Rightarrow> morphPass 0 (morphPass 1 score (width s) (height s)) (width s) (height s))"
  using assms
  by (cases "morphology controls")
     (simp_all add: render_def Let_def pp_get_def pp_set_def split: prod.splits)

subsection \<open>Erode and dilate\<close>

lemma single_pixel_window: "inBoundsNeighbours 1 1 0 0 = {(0, 0)}"
  by (auto simp add: inBoundsNeighbours_def)

text \<open>
  Claim C3, as stated, on the GPU: a \<open>1 \<times> 1\<close> mask whose only texel is 1. With the
  neighbours outside the image read as 0 the minimum over the window is 0; the erode
  pass returns 1, because the texture clamps outside coordinates to the edge texel.
\<close>

theorem C3_counterexample:
  "r_of (morphPass 0 [Vec4 1 1 1 1] 1 1 ! 0)
     \<noteq> Min ((\<lambda>(i, j). zeroPadded [Vec4 1 1 1 1] 1 1 (0 + i) (0 + j)) ` offsets3)"
proof -
  let ?A = "(\<lambda>(i, j). zeroPadded [Vec4 1 1 1 1] 1 1 (0 + i) (0 + j)) ` offsets3"
  have "r_of (morphPass 0 [Vec4 1 1 1 1] 1 1 ! (0 * 1 + 0))
          = Min ((\<lambda>(x', y'). r_of ([Vec4 1 1 1 1] ! (y' * 1 + x'))) ` inBoundsNeighbours 1 1 0 0)"
    using gpu_erode_is_min[of 0 1 0 1 "[Vec4 1 1 1 1]"]
    by (simp only: morphPass_at[of 0 1 0 1] zero_less_one)
  then have one: "r_of (morphPass 0 [Vec4 1 1 1 1] 1 1 ! 0) = 1"
    unfolding single_pixel_window by simp
  have "(-1, -1) \<in> offsets3" by (simp add: offsets3_def)
  moreover have "(\<lambda>(i, j). zeroPadded [Vec4 1 1 1 1] 1 1 (0 + i) (0 + j)) (-1, -1) = 0"
    by (simp add: zeroPadded_def)
  ultimately have "0 \<in> ?A" by (metis (no_types, lifting) image_eqI)
  then have "Min ?A \<le> 0" using offsets3_finite by (intro Min_le) simp_all
  with one show ?thesis by linarith
qed

text \<open>
  Claim C3, amended. CPU path: at every pixel \<open>erode\<close> writes the minimum and \<open>dilate\<close>
  the maximum over the \<open>3 \<times> 3\<close> window, a neighbour outside the image counting as 0
  (\<open>getPixel\<close> returns 0 there). GPU path: at every pixel the erode pass writes the
  minimum and the dilate pass the maximum over the part of the \<open>3 \<times> 3\<close> window that
  lies inside the image; outside coordinates are clamped to the edge and add no 0.
\<close>

theorem C3_erode_min_dilate_max:
  "(length outp = 4 * (w * h) \<and> x < w \<and> y < h \<longrightarrow>
      getPixel (erode w h input outp) (int x) (int y) w h
        = Min ((\<lambda>(i, j). getPixel input (int x + i) (int y + j) w h) ` offsets3)
      \<and> getPixel (dilate w h input outp) (int x) (int y) w h
        = Max ((\<lambda>(i, j). getPixel input (int x + i) (int y + j) w h) ` offsets3))
   \<and> (x < w \<and> y < h \<longrightarrow>
      r_of (morphPass 0 img w h ! (y * w + x))
        = Min ((\<lambda>(x', y'). r_of (img ! (y' * w + x'))) ` inBoundsNeighbours w h x y)
      \<and> r_of (morphPass 1 img w h ! (y * w + x))
        = Max ((\<lambda>(x', y'). r_of (img ! (y' * w + x'))) ` inBoundsNeighbours w h x y))"
proof -
  have cpu: "length outp = 4 * (w * h) \<and> x < w \<and> y < h \<longrightarrow>
      getPixel (erode w h input outp) (int x) (int y) w h
        = Min ((\<lambda>(i, j). getPixel input (int x + i) (int y + j) w h) ` offsets3)
      \<and> getPixel (dilate w h input outp) (int x) (int y) w h
        = Max ((\<lambda>(i, j). getPixel input (int x + i) (int y + j) w h) ` offsets3)"
    using cpu_erode_is_min[of outp w h x y input] cpu_dilate_is_max[of outp w h x y input]
    by blast
  have gpu: "x < w \<and> y < h \<longrightarrow>
      r_of (morphPass 0 img w h ! (y * w + x))
        = Min ((\<lambda>(x', y'). r_of (img ! (y' * w + x'))) ` inBoundsNeighbours w h x y)
      \<and> r_of (morphPass 1 img w h ! (y * w + x))
        = Max ((\<lambda>(x', y'). r_of (img ! (y' * w + x'))) ` inBoundsNeighbours w h x y)"
  proof (intro impI, elim conjE)
    assume x: "x < w" and y: "y < h"
    have "(1::int) \<noteq> 0" by simp
    from gpu_erode_is_min[OF x y, of img] gpu_dilate_is_max[OF x y this, of img]
    show "r_of (morphPass 0 img w h ! (y * w + x))
        = Min ((\<lambda>(x', y'). r_of (img ! (y' * w + x'))) ` inBoundsNeighbours w h x y)
      \<and> r_of (morphPass 1 img w h ! (y * w + x))
        = Max ((\<lambda>(x', y'). r_of (img ! (y' * w + x'))) ` inBoundsNeighbours w h x y)"
      by (simp only: morphPass_at[OF x y])
  qed
  from cpu gpu show ?thesis by (rule conjI)
qed


text \<open>The hypotheses at the single pixel of a \<open>1 \<times> 1\<close> mask.\<close>

theorem C3_witness:
  "getPixel (erode 1 1 [255, 255, 255, 255] [0, 0, 0, 0]) (int 0) (int 0) 1 1
     = Min ((\<lambda>(i, j). getPixel [255, 255, 255, 255] (int 0 + i) (int 0 + j) 1 1) ` offsets3)
   \<and> getPixel (dilate 1 1 [255, 255, 255, 255] [0, 0, 0, 0]) (int 0) (int 0) 1 1
     = Max ((\<lambda>(i, j). getPixel [255, 255, 255, 255] (int 0 + i) (int 0 + j) 1 1) ` offsets3)
   \<and> r_of (morphPass 0 [Vec4 1 1 1 1] 1 1 ! (0 * 1 + 0))
     = Min ((\<lambda>(x', y'). r_of ([Vec4 1 1 1 1] ! (y' * 1 + x'))) ` inBoundsNeighbours 1 1 0 0)
   \<and> r_of (morphPass 1 [Vec4 1 1 1 1] 1 1 ! (0 * 1 + 0))
     = Max ((\<lambda>(x', y'). r_of ([Vec4 1 1 1 1] ! (y' * 1 + x'))) ` inBoundsNeighbours 1 1 0 0)"
proof -
  have h: "length [0, 0, 0, 0 :: byte] = 4 * (1 * 1) \<and> (0::nat) < 1 \<and> (0::nat) < 1"
          "(0::nat) < 1 \<and> (0::nat) < 1"
    by simp_all
  from C3_erode_min_dilate_max[of "[0, 0, 0, 0]" 1 1 0 0 "[255, 255, 255, 255]" "[Vec4 1 1 1 1]"] h
  show ?thesis by blast
qed

subsection \<open>Open and close\<close>

text \<open>
  Claim C8, as stated, on the CPU: the \<open>1 \<times> 1\<close> binary mask whose only pixel is
  foreground. \<open>close\<close> dilates and then erodes; the erosion reads the neighbours outside
  the image as 0, so the pixel becomes background and the foreground count drops
  from 1 to 0.
\<close>

theorem C8_counterexample:
  "foregroundCount (applyMorphology [255, 255, 255, 255] 1 1 MorphClose) 1 1
     < foregroundCount [255, 255, 255, 255] 1 1"
proof -
  have "\<not> interior 1 1 0" by (simp add: interior_def)
  from cpu_close_border_index[of "[255, 255, 255, 255]" 1 1 0, OF _ _ this]
  have "applyMorphology [255, 255, 255, 255] 1 1 MorphClose ! (0 * 4) = 0" by simp
  then have "foregroundCount (applyMorphology [255, 255, 255, 255] 1 1 MorphClose) 1 1 = 0"
    by (simp add: foregroundCount_def)
  moreover have "foregroundCount [255, 255, 255, 255] 1 1 = 1"
    by (simp add: foregroundCount_def)
  ultimately show ?thesis by simp
qed

text \<open>
  Claim C8, amended. \<open>open\<close> never increases the number of foreground pixels of a mask
  (binary or not) in either path. \<open>close\<close> never decreases it in the GPU path. In the
  CPU path \<open>close\<close> keeps every foreground pixel whose \<open>3 \<times> 3\<close> window lies inside the
  image, so the foreground count of the result is at least the number of such pixels,
  and it turns every pixel on the image border into background.
\<close>

theorem C8_open_close_foreground:
  "(length data = 4 * (w * h) \<longrightarrow>
      foregroundCount (applyMorphology data w h MorphOpen) w h \<le> foregroundCount data w h
      \<and> interiorForegroundCount data w h
          \<le> foregroundCount (applyMorphology data w h MorphClose) w h
      \<and> (\<forall>p < w * h. \<not> interior w h p \<longrightarrow> applyMorphology data w h MorphClose ! (p * 4) = 0))
   \<and> (length img = w * h \<longrightarrow>
      foregroundCountTex (morphPass 1 (morphPass 0 img w h) w h) \<le> foregroundCountTex img
      \<and> foregroundCountTex img \<le> foregroundCountTex (morphPass 0 (morphPass 1 img w h) w h))"
  using cpu_open_count[of data w h] cpu_close_count[of data w h]
    cpu_close_border_index[of data w h] gpu_open_count[of img w h] gpu_close_count[of img w h]
  by blast

text \<open>
  The hypotheses at a \<open>3 \<times> 3\<close> CPU mask with the centre pixel set (the one interior
  pixel) and at an all-foreground \<open>3 \<times> 3\<close> GPU mask.
\<close>

theorem C8_witness:
  "foregroundCount (applyMorphology (replicate 16 0 @ [255, 255, 255, 255] @ replicate 16 0)
                      3 3 MorphOpen) 3 3
     \<le> foregroundCount (replicate 16 0 @ [255, 255, 255, 255] @ replicate 16 0) 3 3
   \<and> interiorForegroundCount (replicate 16 0 @ [255, 255, 255, 255] @ replicate 16 0) 3 3
     \<le> foregroundCount (applyMorphology (replicate 16 0 @ [255, 255, 255, 255] @ replicate 16 0)
                             3 3 MorphClose) 3 3
   \<and> applyMorphology (replicate 16 0 @ [255, 255, 255, 255] @ replicate 16 0) 3 3 MorphClose
         ! (0 * 4) = 0
   \<and> foregroundCountTex (morphPass 1 (morphPass 0 (replicate 9 (Vec4 1 1 1 1)) 3 3) 3 3)
     \<le> foregroundCountTex (replicate 9 (Vec4 1 1 1 1))
   \<and> foregroundCountTex (replicate 9 (Vec4 1 1 1 1))
     \<le> foregroundCountTex (morphPass 0 (morphPass 1 (replicate 9 (Vec4 1 1 1 1)) 3 3) 3 3)"
proof -
  let ?d = "replicate 16 0 @ [255, 255, 255, 255] @ replicate 16 (0 :: byte)"
  have h1: "length ?d = 4 * (3 * 3)" by simp
  have h2: "length (replicate 9 (Vec4 1 1 1 1)) = 3 * 3" by simp
  have h3: "(0::nat) < 3 * 3" "\<not> interior 3 3 0" by (simp_all add: interior_def)
  note inst = C8_open_close_foreground[of ?d 3 3 "replicate 9 (Vec4 1 1 1 1)"]
  from inst h1 have a: "foregroundCount (applyMorphology ?d 3 3 MorphOpen) 3 3 \<le> foregroundCount ?d 3 3"
    and b: "interiorForegroundCount ?d 3 3 \<le> foregroundCount (applyMorphology ?d 3 3 MorphClose) 3 3"
    and c: "\<forall>p < 3 * 3. \<not> interior 3 3 p \<longrightarrow> applyMorphology ?d 3 3 MorphClose ! (p * 4) = 0"
    by blast+
  from c h3 have c': "applyMorphology ?d 3 3 MorphClose ! (0 * 4) = 0" by blast
  from inst h2 have d: "foregroundCountTex (morphPass 1 (morphPass 0 (replicate 9 (Vec4 1 1 1 1)) 3 3) 3 3)
       \<le> foregroundCountTex (replicate 9 (Vec4 1 1 1 1))"
    and e: "foregroundCountTex (replicate 9 (Vec4 1 1 1 1))
       \<le> foregroundCountTex (morphPass 0 (morphPass 1 (replicate 9 (Vec4 1 1 1 1)) 3 3) 3 3)"
    by blast+
  from a b c' d e show ?thesis by blast
qed


subsection \<open>The seeding tick\<close>

lemma seed_color_length: "length (seed_color cur i j mean) = length mean"
proof (induction cur i j mean rule: seed_color.induct)
  case (1 cur i j mean)
  show ?case
  proof (cases "i < length cur")
    case True
    have "seed_color cur i j mean
            = seed_color cur (i + 4) (j + 1)
                (mean[j * 3 := num (cur ! i), j * 3 + 1 := num (cur ! (i + 1)),
                      j * 3 + 2 := num (cur ! (i + 2))])"
      using True by (simp del: seed_color.simps add: seed_color.simps[of cur i j mean])
    with "1.IH"[OF True] show ?thesis by (simp only: length_list_update)
  next
    case False
    then show ?thesis by simp
  qed
qed

lemma seed_luminance_length: "length (seed_luminance cur i j mean) = length mean"
proof (induction cur i j mean rule: seed_luminance.induct)
  case (1 cur i j mean)
  show ?case
  proof (cases "i < length cur")
    case True
    have "seed_luminance cur i j mean
            = seed_luminance cur (i + 4) (j + 1) (mean[j := currentBrightness cur i])"
      using True
      by (simp del: seed_luminance.simps
          add: seed_luminance.simps[of cur i j mean] currentBrightness_def Let_def)
    with "1.IH"[OF True, unfolded Let_def, folded currentBrightness_def] show ?thesis
      by (simp only: length_list_update)
  next
    case False
    then show ?thesis by simp
  qed
qed


lemma cpu_seedModel_shape:
  "bm_variance (seedModel controls cur pw ph) = replicate (pw * ph) 100
   \<and> length (bm_mean (seedModel controls cur pw ph))
       = (if detectionMode controls = Color then 3 else 1) * (pw * ph)"
  by (simp del: seed_color.simps seed_luminance.simps
      add: seedModel_def Let_def seed_color_length seed_luminance_length)


text \<open>
  Claim C10. In the CPU path a tick that finds no background model (as after every
  reset) seeds the model from the current frame and returns. The state after the tick
  is the state before it with three changes: the motion canvas has received the
  per-tick clear or fade and nothing else, the processing canvas holds the video frame
  (no motion frame was put on it), and the model is present. The model's variance is
  100 at every pixel and its mean cells hold, pixel by pixel, the frame's colour in
  colour mode and the frame's brightness \<open>(R + G + B) / 3\<close> in luminance mode.
\<close>

theorem C10_seeding_tick_draws_no_motion:
  "(backgroundModelData s = None \<and> length cur = 4 * (pWidth * pHeight) \<longrightarrow>
      (\<exists>bm. draw srcOver resample controls pWidth pHeight (Some cur) s
               = s\<lparr>motionCanvas := fadeOrClear srcOver controls (motionCanvas s),
                   processingCanvas := cur, backgroundModelData := Some bm\<rparr>
          \<and> bm_variance bm = replicate (pWidth * pHeight) 100
          \<and> length (bm_mean bm)
              = (if detectionMode controls = Color then 3 else 1) * (pWidth * pHeight)
          \<and> (\<forall>j < pWidth * pHeight.
                model_at (detectionMode controls) (bm_mean bm) (bm_variance bm) j
                  = ((if detectionMode controls = Color
                      then [num (cur ! (4 * j)), num (cur ! (4 * j + 1)), num (cur ! (4 * j + 2))]
                      else [(num (cur ! (4 * j)) + num (cur ! (4 * j + 1))
                               + num (cur ! (4 * j + 2))) / 3]),
                     100))))
   \<and> motionCanvas (draw srcOver resample controls pWidth pHeight (Some cur)
                      (resetBackgroundModel s))
       = fadeOrClear srcOver controls (motionCanvas s)"
proof -
  let ?bm = "seedModel controls cur pWidth pHeight"
  have a: "backgroundModelData s = None \<Longrightarrow>
           draw srcOver resample controls pWidth pHeight (Some cur) s
             = s\<lparr>motionCanvas := fadeOrClear srcOver controls (motionCanvas s),
                 processingCanvas := cur, backgroundModelData := Some ?bm\<rparr>"
    by (simp add: draw_def Let_def)
  have b: "\<forall>j < pWidth * pHeight.
              model_at (detectionMode controls) (bm_mean ?bm) (bm_variance ?bm) j
                = ((if detectionMode controls = Color
                    then [num (cur ! (4 * j)), num (cur ! (4 * j + 1)), num (cur ! (4 * j + 2))]
                    else [(num (cur ! (4 * j)) + num (cur ! (4 * j + 1))
                             + num (cur ! (4 * j + 2))) / 3]),
                   100)"
    if "length cur = 4 * (pWidth * pHeight)"
  proof (intro allI impI)
    fix j assume "j < pWidth * pHeight"
    with that show "model_at (detectionMode controls) (bm_mean ?bm) (bm_variance ?bm) j
                = ((if detectionMode controls = Color
                    then [num (cur ! (4 * j)), num (cur ! (4 * j + 1)), num (cur ! (4 * j + 2))]
                    else [(num (cur ! (4 * j)) + num (cur ! (4 * j + 1))
                             + num (cur ! (4 * j + 2))) / 3]),
                   100)"
      by (rule cpu_seedModel_at)
  qed
  have c: "motionCanvas (draw srcOver resample controls pWidth pHeight (Some cur)
                           (resetBackgroundModel s))
             = fadeOrClear srcOver controls (motionCanvas s)"
    by (simp add: draw_def Let_def resetBackgroundModel_def)
  note d = cpu_seedModel_shape[of controls cur pWidth pHeight]
  have "backgroundModelData s = None \<and> length cur = 4 * (pWidth * pHeight) \<longrightarrow>
      (\<exists>bm. draw srcOver resample controls pWidth pHeight (Some cur) s
               = s\<lparr>motionCanvas := fadeOrClear srcOver controls (motionCanvas s),
                   processingCanvas := cur, backgroundModelData := Some bm\<rparr>
          \<and> bm_variance bm = replicate (pWidth * pHeight) 100
          \<and> length (bm_mean bm)
              = (if detectionMode controls = Color then 3 else 1) * (pWidth * pHeight)
          \<and> (\<forall>j < pWidth * pHeight.
                model_at (detectionMode controls) (bm_mean bm) (bm_variance bm) j
                  = ((if detectionMode controls = Color
                      then [num (cur ! (4 * j)), num (cur ! (4 * j + 1)), num (cur ! (4 * j + 2))]
                      else [(num (cur ! (4 * j)) + num (cur ! (4 * j + 1))
                               + num (cur ! (4 * j + 2))) / 3]),
                     100)))"
  proof (intro impI, elim conjE)
    assume n: "backgroundModelData s = None" and l: "length cur = 4 * (pWidth * pHeight)"
    show "\<exists>bm. draw srcOver resample controls pWidth pHeight (Some cur) s
               = s\<lparr>motionCanvas := fadeOrClear srcOver controls (motionCanvas s),
                   processingCanvas := cur, backgroundModelData := Some bm\<rparr>
          \<and> bm_variance bm = replicate (pWidth * pHeight) 100
          \<and> length (bm_mean bm)
              = (if detectionMode controls = Color then 3 else 1) * (pWidth * pHeight)
          \<and> (\<forall>j < pWidth * pHeight.
                model_at (detectionMode controls) (bm_mean bm) (bm_variance bm) j
                  = ((if detectionMode controls = Color
                      then [num (cur ! (4 * j)), num (cur ! (4 * j + 1)), num (cur ! (4 * j + 2))]
                      else [(num (cur ! (4 * j)) + num (cur ! (4 * j + 1))
                               + num (cur ! (4 * j + 2))) / 3]),
                     100))"
      by (rule exI[of _ ?bm]) (intro conjI a[OF n] b[OF l] conjunct1[OF d] conjunct2[OF d])
  qed
  then show ?thesis using c by (rule conjI)
qed


text \<open>
  The hypotheses at two frames: a red and a blue pixel (\<open>2 \<times> 1\<close>) under the default
  controls, and one pixel \<open>(30, 60, 90)\<close> in luminance mode, each over a white canvas.
\<close>

theorem C10_witness:
  "(\<exists>bm. draw (\<lambda>c d. d) id defaultControls 2 1 (Some [255, 0, 0, 255, 0, 0, 255, 255])
            \<lparr>backgroundModelData = None,
             motionCanvas = [(255, 255, 255, 255), (255, 255, 255, 255)],
             processingCanvas = []\<rparr>
          = \<lparr>backgroundModelData = Some bm, motionCanvas = [(0, 0, 0, 0), (0, 0, 0, 0)],
             processingCanvas = [255, 0, 0, 255, 0, 0, 255, 255]\<rparr>
        \<and> bm_variance bm = [100, 100]
        \<and> model_at Color (bm_mean bm) (bm_variance bm) 0 = ([255, 0, 0], 100)
        \<and> model_at Color (bm_mean bm) (bm_variance bm) 1 = ([0, 0, 255], 100))
   \<and> (\<exists>bm. draw (\<lambda>c d. d) id (defaultControls\<lparr>detectionMode := Luminance\<rparr>) 1 1
            (Some [30, 60, 90, 255])
            \<lparr>backgroundModelData = None, motionCanvas = [(255, 255, 255, 255)],
             processingCanvas = []\<rparr>
          = \<lparr>backgroundModelData = Some bm, motionCanvas = [(0, 0, 0, 0)],
             processingCanvas = [30, 60, 90, 255]\<rparr>
        \<and> bm_variance bm = [100]
        \<and> model_at Luminance (bm_mean bm) (bm_variance bm) 0 = ([60], 100))"
proof -
  let ?so = "\<lambda>(c :: vec4) (d :: rgba8). d"
  let ?c2 = "[255, 0, 0, 255, 0, 0, 255, 255 :: byte]"
  let ?s2 = "\<lparr>backgroundModelData = None,
              motionCanvas = [(255, 255, 255, 255), (255, 255, 255, 255) :: rgba8],
              processingCanvas = ([] :: byte list)\<rparr>"
  let ?lum = "defaultControls\<lparr>detectionMode := Luminance\<rparr>"
  let ?c1 = "[30, 60, 90, 255 :: byte]"
  let ?s1 = "\<lparr>backgroundModelData = None, motionCanvas = [(255, 255, 255, 255) :: rgba8],
              processingCanvas = ([] :: byte list)\<rparr>"
  have h2: "backgroundModelData ?s2 = None \<and> length ?c2 = 4 * (2 * 1)" by simp
  have h1: "backgroundModelData ?s1 = None \<and> length ?c1 = 4 * (1 * 1)" by simp
  have m: "detectionMode defaultControls = Color" "detectionMode ?lum = Luminance"
          "effect defaultControls = Classic" "effect ?lum = Classic"
    by (simp_all add: defaultControls_def)
  from C10_seeding_tick_draws_no_motion[of ?s2 ?c2 2 1 ?so id defaultControls] h2
  obtain bm where
    d: "draw ?so id defaultControls 2 1 (Some ?c2) ?s2
          = ?s2\<lparr>motionCanvas := fadeOrClear ?so defaultControls (motionCanvas ?s2),
                processingCanvas := ?c2, backgroundModelData := Some bm\<rparr>"
    and v: "bm_variance bm = replicate (2 * 1) 100"
    and a: "\<forall>j < 2 * 1. model_at (detectionMode defaultControls) (bm_mean bm) (bm_variance bm) j
              = ((if detectionMode defaultControls = Color
                  then [num (?c2 ! (4 * j)), num (?c2 ! (4 * j + 1)), num (?c2 ! (4 * j + 2))]
                  else [(num (?c2 ! (4 * j)) + num (?c2 ! (4 * j + 1))
                           + num (?c2 ! (4 * j + 2))) / 3]), 100)"
    by blast
  have a0: "model_at Color (bm_mean bm) (bm_variance bm) 0 = ([255, 0, 0], 100)"
    using a[rule_format, of 0] by (simp add: m num_def)
  have a1: "model_at Color (bm_mean bm) (bm_variance bm) 1 = ([0, 0, 255], 100)"
    using a[rule_format, of 1] by (simp add: m num_def)
  have d': "draw ?so id defaultControls 2 1 (Some ?c2) ?s2
          = \<lparr>backgroundModelData = Some bm, motionCanvas = [(0, 0, 0, 0), (0, 0, 0, 0)],
             processingCanvas = ?c2\<rparr>"
    unfolding d by (simp add: fadeOrClear_def clearRect_def m)
  have v': "bm_variance bm = [100, 100]"
    unfolding v by (simp add: numeral_2_eq_2)
  from d' v' a0 a1 have one:
    "\<exists>bm. draw ?so id defaultControls 2 1 (Some ?c2) ?s2
          = \<lparr>backgroundModelData = Some bm, motionCanvas = [(0, 0, 0, 0), (0, 0, 0, 0)],
             processingCanvas = ?c2\<rparr>
        \<and> bm_variance bm = [100, 100]
        \<and> model_at Color (bm_mean bm) (bm_variance bm) 0 = ([255, 0, 0], 100)
        \<and> model_at Color (bm_mean bm) (bm_variance bm) 1 = ([0, 0, 255], 100)"
    by blast
  from C10_seeding_tick_draws_no_motion[of ?s1 ?c1 1 1 ?so id ?lum] h1
  obtain bl where
    e: "draw ?so id ?lum 1 1 (Some ?c1) ?s1
          = ?s1\<lparr>motionCanvas := fadeOrClear ?so ?lum (motionCanvas ?s1),
                processingCanvas := ?c1, backgroundModelData := Some bl\<rparr>"
    and w: "bm_variance bl = replicate (1 * 1) 100"
    and b: "\<forall>j < 1 * 1. model_at (detectionMode ?lum) (bm_mean bl) (bm_variance bl) j
              = ((if detectionMode ?lum = Color
                  then [num (?c1 ! (4 * j)), num (?c1 ! (4 * j + 1)), num (?c1 ! (4 * j + 2))]
                  else [(num (?c1 ! (4 * j)) + num (?c1 ! (4 * j + 1))
                           + num (?c1 ! (4 * j + 2))) / 3]), 100)"
    by blast
  have b0: "model_at Luminance (bm_mean bl) (bm_variance bl) 0 = ([60], 100)"
    using b[rule_format, of 0] by (simp add: m num_def)
  have e': "draw ?so id ?lum 1 1 (Some ?c1) ?s1
          = \<lparr>backgroundModelData = Some bl, motionCanvas = [(0, 0, 0, 0)],
             processingCanvas = ?c1\<rparr>"
    unfolding e by (simp add: fadeOrClear_def clearRect_def m)
  have w': "bm_variance bl = [100]"
    unfolding w by simp
  from e' w' b0 have two:
    "\<exists>bm. draw ?so id ?lum 1 1 (Some ?c1) ?s1
          = \<lparr>backgroundModelData = Some bm, motionCanvas = [(0, 0, 0, 0)],
             processingCanvas = ?c1\<rparr>
        \<and> bm_variance bm = [100]
        \<and> model_at Luminance (bm_mean bm) (bm_variance bm) 0 = ([60], 100)"
    by blast
  from one two show ?thesis by (rule conjI)
qed


subsection \<open>Persistence in the GPU path\<close>

text \<open>
  In the GPU path the persistence branch enables blending and then calls \<open>gl.clear\<close>,
  which blending does not touch: the previous output is replaced, whatever it held.
\<close>

lemma gpu_fade_is_a_clear:
  "effect controls = ElectricTrails \<or> effect controls = Heatmap \<Longrightarrow>
   render_clear controls buf
     = (True, replicate (length buf) (Vec4 0 0 0 (1 - persistence controls)))"
  by (auto simp add: render_clear_def gl_clear_def map_replicate_const Let_def)

lemma gpu_clear_opaque:
  "effect controls \<noteq> ElectricTrails \<Longrightarrow> effect controls \<noteq> Heatmap \<Longrightarrow>
   render_clear controls buf = (False, replicate (length buf) (Vec4 0 0 0 1))"
  by (simp add: render_clear_def gl_clear_def map_replicate_const)

lemma bgSubPass_single:
  "bgSubPass controls 1 1 [cur] [m] [v]
     = [backgroundSubtraction (adaptationRate controls) (detectionThreshold controls / 10)
          (detectionMode controls = Color) 0.05 cur m v]"
  by (simp add: bgSubPass_def drawQuad_def texture_at_def clampi_def)

lemma morphPass_single: "morphPass u [v] 1 1 = [Vec4 (r_of v) (r_of v) (r_of v) 1]"
proof -
  have w: "(\<lambda>(x', y'). r_of ([v] ! (y' * 1 + x'))) ` inBoundsNeighbours 1 1 0 0 = {r_of v}"
    unfolding single_pixel_window by simp
  have "r_of (morphologyFragment u [v] 1 1 0 0) = r_of v"
  proof (cases "u = 0")
    case True
    show ?thesis
      unfolding True using gpu_erode_is_min[of 0 1 0 1 "[v]"] by (simp only: w) simp
  next
    case False
    show ?thesis
      using gpu_dilate_is_max[of 0 1 0 1 u "[v]"] False by (simp only: w) simp
  qed
  then have "morphologyFragment u [v] 1 1 0 0 = Vec4 (r_of v) (r_of v) (r_of v) 1"
    using morphologyFragment_shape[of u "[v]" 1 1 0 0] by (simp only: Let_def)
  then show ?thesis
    by (simp add: morphPass_def drawQuad_def)
qed

lemma drawToCanvas_single:
  "drawToCanvas b 1 1 frag [d] = [if b then blend_src_alpha (frag 0 0) d else frag 0 0]"
  by (simp add: drawToCanvas_def Let_def)

lemma outputFragment_single:
  "outputFragment fx e iv video [m] 1 1 0 0
     = (case fx e video [m] iv 1 1 0 0 of
          (rr, rg, rb) \<Rightarrow> Vec4 rr rg rb (if iv then 1 - r_of m else r_of m))"
  by (simp add: outputFragment_def texture_at_def clampi_def Let_def)

lemma black_on_black_model_scores_zero:
  "bgsub_soft (15 / 10) True 0.05 (Vec4 0 0 0 1) (Vec4 0 0 0 1) (Vec4 0 0 0 1) = 0"
proof -
  have "0 < sqrt 0.05" by simp
  then have lo: "15 / 10 * sqrt 0.05 * 0.6 < 15 / 10 * sqrt 0.05 * 1.4"
    and z: "(0::real) \<le> 15 / 10 * sqrt 0.05 * 0.6" by simp_all
  have "smoothstep (15 / 10 * sqrt 0.05 * 0.6) (15 / 10 * sqrt 0.05 * 1.4) 0 = 0"
    using lo z by (rule smoothstep_low)
  then show ?thesis
    by (simp add: bgsub_soft_def bgsub_edge_def bgsub_var_def bgsub_dist_def length3_def)
qed


lemma gpu_white_fragment:
  "backgroundSubtraction (adaptationRate defaultControls) (detectionThreshold defaultControls / 10)
     (detectionMode defaultControls = Color) 0.05 (Vec4 1 1 1 1) (Vec4 0 0 0 0) (Vec4 0 0 0 0)
   = (Vec4 0 0 0 1, Vec4 0 0 0 1, Vec4 1 1 1 1)"
proof -
  have "bgsub_soft (detectionThreshold defaultControls / 10) (detectionMode defaultControls = Color)
          0.05 (Vec4 1 1 1 1) (Vec4 0 0 0 0) (Vec4 0 0 0 0) = 1"
    using white_on_fresh_model_scores_one by (simp add: defaultControls_def)
  from bgsub_soft_one_unchanged[OF this] show ?thesis by simp
qed

lemma gpu_black_fragment:
  "backgroundSubtraction (adaptationRate defaultControls) (detectionThreshold defaultControls / 10)
     (detectionMode defaultControls = Color) 0.05 (Vec4 0 0 0 1) (Vec4 0 0 0 1) (Vec4 0 0 0 1)
   = (Vec4 0 0 0 1, Vec4 0 0 0 1, Vec4 0 0 0 1)"
proof -
  have "bgsub_soft (detectionThreshold defaultControls / 10) (detectionMode defaultControls = Color)
          0.05 (Vec4 0 0 0 1) (Vec4 0 0 0 1) (Vec4 0 0 0 1) = 0"
    using black_on_black_model_scores_zero by (simp add: defaultControls_def)
  then show ?thesis
    by (simp add: backgroundSubtraction_def Let_def mix4_def mix_def dot3_def defaultControls_def)
qed

lemma gpu_persistence_first_tick:
  assumes "e = ElectricTrails \<or> e = Heatmap"
  shows "render fx [Vec4 1 1 1 1] (defaultControls\<lparr>effect := e\<rparr>) (init 1 1 (newMotionEngine 1))
    = Inr \<lparr>width = 1, height = 1,
           textures = Some \<lparr>tex_video = [Vec4 1 1 1 1],
                            tex_mean = ([Vec4 0 0 0 0], [Vec4 0 0 0 1]),
                            tex_variance = ([Vec4 0 0 0 0], [Vec4 0 0 0 1]),
                            tex_mask = ([Vec4 1 1 1 1], [Vec4 1 1 1 1])\<rparr>,
           pingPongIndex = 1, isInitialized = True,
           canvas = [case fx e [Vec4 1 1 1 1] [Vec4 1 1 1 1] False 1 1 0 0 of
                       (rr, rg, rb) \<Rightarrow> Vec4 rr rg rb 1],
           blendEnabled = True\<rparr>"
proof -
  let ?c = "defaultControls\<lparr>effect := e\<rparr>"
  have c: "morphology defaultControls = MorphOpen" "invert defaultControls = False"
    by (simp_all add: defaultControls_def)
  have cl: "render_clear ?c [Vec4 0 0 0 0] = (True, [Vec4 0 0 0 (1 - persistence defaultControls)])"
    using gpu_fade_is_a_clear[of ?c "[Vec4 0 0 0 0]"] assms by simp
  show ?thesis
    using gpu_white_fragment c cl
    by (simp add: render_def init_def newMotionEngine_def createTexturesAndFBOs_def createTex_def
        Let_def pp_get_def pp_set_def bgSubPass_single[unfolded One_nat_def]
        morphPass_single[unfolded One_nat_def] drawToCanvas_single[unfolded One_nat_def]
        outputFragment_single[unfolded One_nat_def] blend_src_alpha_def split: prod.splits)
qed


lemma gpu_persistence_second_tick:
  assumes "e = ElectricTrails \<or> e = Heatmap"
  shows "render fx [Vec4 0 0 0 1] (defaultControls\<lparr>effect := e\<rparr>)
      \<lparr>width = 1, height = 1,
       textures = Some \<lparr>tex_video = [Vec4 1 1 1 1],
                        tex_mean = ([Vec4 0 0 0 0], [Vec4 0 0 0 1]),
                        tex_variance = ([Vec4 0 0 0 0], [Vec4 0 0 0 1]),
                        tex_mask = ([Vec4 1 1 1 1], [Vec4 1 1 1 1])\<rparr>,
       pingPongIndex = 1, isInitialized = True, canvas = [prev], blendEnabled = True\<rparr>
    = Inr \<lparr>width = 1, height = 1,
           textures = Some \<lparr>tex_video = [Vec4 0 0 0 1],
                            tex_mean = ([Vec4 0 0 0 1], [Vec4 0 0 0 1]),
                            tex_variance = ([Vec4 0 0 0 1], [Vec4 0 0 0 1]),
                            tex_mask = ([Vec4 0 0 0 1], [Vec4 0 0 0 1])\<rparr>,
           pingPongIndex = 0, isInitialized = True,
           canvas = [Vec4 0 0 0 (1 - persistence defaultControls)],
           blendEnabled = True\<rparr>"
proof -
  let ?c = "defaultControls\<lparr>effect := e\<rparr>"
  have c: "morphology defaultControls = MorphOpen" "invert defaultControls = False"
    by (simp_all add: defaultControls_def)
  have cl: "render_clear ?c [prev] = (True, [Vec4 0 0 0 (1 - persistence defaultControls)])"
    using gpu_fade_is_a_clear[of ?c "[prev]"] assms by simp
  show ?thesis
    using gpu_black_fragment c cl
    by (simp add: render_def Let_def pp_get_def pp_set_def bgSubPass_single[unfolded One_nat_def]
        morphPass_single[unfolded One_nat_def] drawToCanvas_single[unfolded One_nat_def]
        outputFragment_single[unfolded One_nat_def] blend_src_alpha_def split: prod.splits)
qed

lemma gpu_persistence_two_ticks:
  assumes "e = ElectricTrails \<or> e = Heatmap"
  shows "\<exists>s1 s2.
      render fx [Vec4 1 1 1 1] (defaultControls\<lparr>effect := e\<rparr>) (init 1 1 (newMotionEngine 1))
        = Inr s1
      \<and> canvas s1 = [case fx e [Vec4 1 1 1 1] [Vec4 1 1 1 1] False 1 1 0 0 of
                       (rr, rg, rb) \<Rightarrow> Vec4 rr rg rb 1]
      \<and> render fx [Vec4 0 0 0 1] (defaultControls\<lparr>effect := e\<rparr>) s1 = Inr s2
      \<and> map rgb (canvas s2) = [(0, 0, 0)]"
proof -
  let ?s1 = "\<lparr>width = 1, height = 1,
           textures = Some \<lparr>tex_video = [Vec4 1 1 1 1],
                            tex_mean = ([Vec4 0 0 0 0], [Vec4 0 0 0 1]),
                            tex_variance = ([Vec4 0 0 0 0], [Vec4 0 0 0 1]),
                            tex_mask = ([Vec4 1 1 1 1], [Vec4 1 1 1 1])\<rparr>,
           pingPongIndex = 1, isInitialized = True,
           canvas = [case fx e [Vec4 1 1 1 1] [Vec4 1 1 1 1] False 1 1 0 0 of
                       (rr, rg, rb) \<Rightarrow> Vec4 rr rg rb 1],
           blendEnabled = True\<rparr>"
  let ?s2 = "\<lparr>width = 1, height = 1,
           textures = Some \<lparr>tex_video = [Vec4 0 0 0 1],
                            tex_mean = ([Vec4 0 0 0 1], [Vec4 0 0 0 1]),
                            tex_variance = ([Vec4 0 0 0 1], [Vec4 0 0 0 1]),
                            tex_mask = ([Vec4 0 0 0 1], [Vec4 0 0 0 1])\<rparr>,
           pingPongIndex = 0, isInitialized = True,
           canvas = [Vec4 0 0 0 (1 - persistence defaultControls)],
           blendEnabled = True\<rparr>"
  have t1: "render fx [Vec4 1 1 1 1] (defaultControls\<lparr>effect := e\<rparr>)
              (init 1 1 (newMotionEngine 1)) = Inr ?s1"
    using assms by (rule gpu_persistence_first_tick)
  have t2: "render fx [Vec4 0 0 0 1] (defaultControls\<lparr>effect := e\<rparr>) ?s1 = Inr ?s2"
    using assms by (rule gpu_persistence_second_tick)
  have c1: "canvas ?s1 = [case fx e [Vec4 1 1 1 1] [Vec4 1 1 1 1] False 1 1 0 0 of
                       (rr, rg, rb) \<Rightarrow> Vec4 rr rg rb 1]"
    by simp
  have c2: "map rgb (canvas ?s2) = [(0, 0, 0)]"
    by (simp add: rgb_def)
  show ?thesis
    by (rule exI[of _ ?s1], rule exI[of _ ?s2]) (intro conjI t1 c1 t2 c2)
qed


subsection \<open>Trails in the CPU path\<close>

lemma setPixel_alpha_same:
  "(y * w + x) * 4 + 3 < length data \<Longrightarrow> setPixel data x y w v ! ((y * w + x) * 4 + 3) = 255"
  by (simp add: setPixel_def Let_def)

lemma setPixel_alpha_other:
  "p \<noteq> y * w + x \<Longrightarrow> setPixel data x y w v ! (p * 4 + 3) = data ! (p * 4 + 3)"
proof -
  assume "p \<noteq> y * w + x"
  then have "(y * w + x) * 4 \<noteq> p * 4 + 3" "(y * w + x) * 4 + 1 \<noteq> p * 4 + 3"
    "(y * w + x) * 4 + 2 \<noteq> p * 4 + 3" "(y * w + x) * 4 + 3 \<noteq> p * 4 + 3"
    by presburger+
  then show ?thesis by (simp add: setPixel_def Let_def)
qed

lemma raster_row_alpha:
  assumes "length out = 4 * (w * h)" and "y < h" and "n \<le> w" and "x' < w" and "y' < h"
  shows "fold (\<lambda>x out. setPixel out x y w (f x)) [0..<n] out ! ((y' * w + x') * 4 + 3)
           = (if y' = y \<and> x' < n then 255 else out ! ((y' * w + x') * 4 + 3))"
  using assms(3)
proof (induction n)
  case 0
  show ?case by simp
next
  case (Suc n)
  let ?o = "fold (\<lambda>x out. setPixel out x y w (f x)) [0..<n] out"
  have n: "n < w" using Suc.prems by simp
  have ih: "?o ! ((y' * w + x') * 4 + 3)
              = (if y' = y \<and> x' < n then 255 else out ! ((y' * w + x') * 4 + 3))"
    using Suc by simp
  have len: "(y * w + n) * 4 + 3 < length ?o"
    using pixel_index_less[OF n assms(2)] assms(1) by (simp add: raster_row_length)
  have unf: "fold (\<lambda>x out. setPixel out x y w (f x)) [0..<Suc n] out = setPixel ?o n y w (f n)"
    by simp
  show ?case
  proof (cases "y' * w + x' = y * w + n")
    case True
    then have eq: "y' = y \<and> x' = n" using pixel_index_inj[OF assms(4) n] by simp
    have "setPixel ?o n y w (f n) ! ((y * w + n) * 4 + 3) = 255"
      using len by (rule setPixel_alpha_same)
    with eq show ?thesis unfolding unf by simp
  next
    case False
    then have ne: "\<not> (y' = y \<and> x' = n)" by auto
    have "setPixel ?o n y w (f n) ! ((y' * w + x') * 4 + 3) = ?o ! ((y' * w + x') * 4 + 3)"
      using False by (rule setPixel_alpha_other)
    with ne ih show ?thesis unfolding unf by (auto simp add: less_Suc_eq)
  qed
qed

lemma raster_alpha:
  assumes "length out = 4 * (w * h)" and "m \<le> h" and "x' < w" and "y' < h"
  shows "fold (\<lambda>y out. fold (\<lambda>x out. setPixel out x y w (f x y)) [0..<w] out) [0..<m] out
             ! ((y' * w + x') * 4 + 3)
           = (if y' < m then 255 else out ! ((y' * w + x') * 4 + 3))"
  using assms(2)
proof (induction m)
  case 0
  show ?case by simp
next
  case (Suc m)
  let ?o = "fold (\<lambda>y out. fold (\<lambda>x out. setPixel out x y w (f x y)) [0..<w] out) [0..<m] out"
  have m: "m < h" using Suc.prems by simp
  have len: "length ?o = 4 * (w * h)" using assms(1) by (simp add: raster_length)
  have ih: "?o ! ((y' * w + x') * 4 + 3)
              = (if y' < m then 255 else out ! ((y' * w + x') * 4 + 3))"
    using Suc by simp
  have "fold (\<lambda>x out. setPixel out x m w (f x m)) [0..<w] ?o ! ((y' * w + x') * 4 + 3)
           = (if y' = m \<and> x' < w then 255 else ?o ! ((y' * w + x') * 4 + 3))"
    using raster_row_alpha[OF len m le_refl assms(3,4), of "\<lambda>x. f x m"] .
  then show ?case using ih assms(3) by auto
qed

lemma applyMorphology_length: "length (applyMorphology data w h t) = length data"
  by (cases t) (simp_all add: applyMorphology_def erode_length dilate_length)

text \<open>
  \<open>setPixel\<close> writes alpha 255, so a mask that has been through \<open>open\<close> or \<open>close\<close> is
  opaque at every pixel, whatever alpha the per-pixel loop gave its background.
\<close>

lemma applyMorphology_opaque:
  assumes "length data = 4 * (w * h)" and p: "p < w * h" and "t \<noteq> MorphNone"
  shows "applyMorphology data w h t ! (p * 4 + 3) = 255"
proof -
  from index_coords[OF p] have c: "p mod w < w" "p div w < h" by simp_all
  have pp: "(p div w * w + p mod w) * 4 + 3 = p * 4 + 3" by simp
  have "fold (\<lambda>y out. fold (\<lambda>x out. setPixel out x y w (f x y)) [0..<w] out) [0..<h] data
          ! (p * 4 + 3) = 255" for f
    using raster_alpha[OF assms(1) le_refl c, of f] c(2) by (simp only: pp if_True)
  then show ?thesis
    using assms(3) by (cases t) (simp_all add: applyMorphology_def erode_def dilate_def)
qed


lemma paintPixel_length: "length (paintPixel controls fgd i md) = length md"
  by (simp add: paintPixel_def Let_def split: prod.splits)

lemma pixel_step_length:
  "pixel_step controls cur i j (m, v, md) = (m', v', md') \<Longrightarrow> length md' = length md"
  by (auto simp add: pixel_step_def Let_def paintPixel_length split: prod.splits if_splits)

lemma draw_loop_length:
  "draw_loop controls cur i j st = (m', v', md') \<Longrightarrow> st = (m, v, md) \<Longrightarrow>
   length md' = length md"
proof (induction controls cur i j st arbitrary: m v md rule: draw_loop.induct)
  case (1 controls cur i j st)
  show ?case
  proof (cases "i < length cur")
    case False
    with "1.prems" show ?thesis by simp
  next
    case True
    obtain m1 v1 md1 where st1: "pixel_step controls cur i j st = (m1, v1, md1)"
      by (cases "pixel_step controls cur i j st") auto
    from True "1.prems"(1)
    have loop: "draw_loop controls cur (i + 4) (j + 1) (pixel_step controls cur i j st) = (m', v', md')"
      by (simp del: draw_loop.simps add: draw_loop.simps[of controls cur i j st])
    have "length md1 = length md"
      using st1 "1.prems"(2) pixel_step_length[of controls cur i j m v md m1 v1 md1] by simp
    moreover have "length md' = length md1"
      using "1.IH"[OF True loop st1] .
    ultimately show ?thesis by simp
  qed
qed

text \<open>
  The CPU path with morphology on: the motion frame composited onto the motion canvas
  is opaque at every pixel, in the trails style too, so it covers what the fade left.
\<close>

lemma cpu_morphology_frame_opaque:
  assumes "backgroundModelData s = Some bm" and "morphology controls \<noteq> MorphNone"
  shows "\<exists>md. motionCanvas (draw srcOver resample controls pWidth pHeight (Some cur) s)
                 = drawImage srcOver resample md (fadeOrClear srcOver controls (motionCanvas s))
              \<and> (\<forall>p < pWidth * pHeight. a_of (imagePixel md p) = 1)"
proof -
  let ?md0 = "replicate (pWidth * pHeight * 4) (0 :: byte)"
  obtain m' v' md' where loop:
    "draw_loop controls cur 0 0 (bm_mean bm, bm_variance bm, ?md0) = (m', v', md')"
    by (cases "draw_loop controls cur 0 0 (bm_mean bm, bm_variance bm, ?md0)") auto
  let ?md = "applyMorphology md' pWidth pHeight (morphology controls)"
  have len: "length md' = 4 * (pWidth * pHeight)"
    using draw_loop_length[OF loop refl] by simp
  have "motionCanvas (draw srcOver resample controls pWidth pHeight (Some cur) s)
          = drawImage srcOver resample ?md (fadeOrClear srcOver controls (motionCanvas s))"
    using assms loop by (simp add: draw_def Let_def)
  moreover have "\<forall>p < pWidth * pHeight. a_of (imagePixel ?md p) = 1"
    using applyMorphology_opaque[OF len _ assms(2)] by (simp add: imagePixel_def num_def)
  ultimately show ?thesis by blast
qed

text \<open>
  Claim C5. In the persistence styles the previous output is meant to be faded, not
  cleared, so that with no new motion a share \<open>persistence\<close> of its colour remains
  after each tick. In the GPU path the code does otherwise, in both styles. On a
  \<open>1 \<times> 1\<close> engine with persistence 0.85, the first tick (a white pixel on the fresh
  model: full motion) writes the style's colour at full opacity; the second tick (a
  black pixel: no motion) leaves the colour \<open>(0, 0, 0)\<close>. Nothing of the first
  tick's colour is retained: the code sets the clear colour to \<open>(0, 0, 0, fade)\<close> and
  calls \<open>gl.clear\<close>, which replaces the buffer, and the quad drawn on top has alpha 0.
\<close>

theorem C5_gpu_persistence_retains_nothing:
  "(\<exists>s1 s2.
      render fx [Vec4 1 1 1 1] (defaultControls\<lparr>effect := Heatmap\<rparr>)
          (init 1 1 (newMotionEngine 1)) = Inr s1
      \<and> canvas s1 = [case fx Heatmap [Vec4 1 1 1 1] [Vec4 1 1 1 1] False 1 1 0 0 of
                       (rr, rg, rb) \<Rightarrow> Vec4 rr rg rb 1]
      \<and> render fx [Vec4 0 0 0 1] (defaultControls\<lparr>effect := Heatmap\<rparr>) s1 = Inr s2
      \<and> map rgb (canvas s2) = [(0, 0, 0)])
   \<and> (\<exists>s1 s2.
      render fx [Vec4 1 1 1 1] (defaultControls\<lparr>effect := ElectricTrails\<rparr>)
          (init 1 1 (newMotionEngine 1)) = Inr s1
      \<and> canvas s1 = [case fx ElectricTrails [Vec4 1 1 1 1] [Vec4 1 1 1 1] False 1 1 0 0 of
                       (rr, rg, rb) \<Rightarrow> Vec4 rr rg rb 1]
      \<and> render fx [Vec4 0 0 0 1] (defaultControls\<lparr>effect := ElectricTrails\<rparr>) s1 = Inr s2
      \<and> map rgb (canvas s2) = [(0, 0, 0)])"
proof (rule conjI)
  have "Heatmap = ElectricTrails \<or> Heatmap = Heatmap" by simp
  then show "\<exists>s1 s2.
      render fx [Vec4 1 1 1 1] (defaultControls\<lparr>effect := Heatmap\<rparr>)
          (init 1 1 (newMotionEngine 1)) = Inr s1
      \<and> canvas s1 = [case fx Heatmap [Vec4 1 1 1 1] [Vec4 1 1 1 1] False 1 1 0 0 of
                       (rr, rg, rb) \<Rightarrow> Vec4 rr rg rb 1]
      \<and> render fx [Vec4 0 0 0 1] (defaultControls\<lparr>effect := Heatmap\<rparr>) s1 = Inr s2
      \<and> map rgb (canvas s2) = [(0, 0, 0)]"
    by (rule gpu_persistence_two_ticks)
next
  have "ElectricTrails = ElectricTrails \<or> ElectricTrails = Heatmap" by simp
  then show "\<exists>s1 s2.
      render fx [Vec4 1 1 1 1] (defaultControls\<lparr>effect := ElectricTrails\<rparr>)
          (init 1 1 (newMotionEngine 1)) = Inr s1
      \<and> canvas s1 = [case fx ElectricTrails [Vec4 1 1 1 1] [Vec4 1 1 1 1] False 1 1 0 0 of
                       (rr, rg, rb) \<Rightarrow> Vec4 rr rg rb 1]
      \<and> render fx [Vec4 0 0 0 1] (defaultControls\<lparr>effect := ElectricTrails\<rparr>) s1 = Inr s2
      \<and> map rgb (canvas s2) = [(0, 0, 0)]"
    by (rule gpu_persistence_two_ticks)
qed

end
